theory Spec2Isabelle
  imports Main "HOL-Library.Word"
begin

unbundle bit_operations_syntax

section \<open>Status codes and the register transport\<close>

text \<open>
  Every driver function returns an \<open>int\<close> status: \<open>0\<close> on success, a \<open>BLADERF_ERR_*\<close> code
  otherwise.  The codes are declared in \<open>libbladeRF.h\<close>; \<open>lms.c\<close> names three of them itself
  (\<open>BLADERF_ERR_UNEXPECTED\<close>, \<open>BLADERF_ERR_INVAL\<close>) or receives them from the transport.
  A status together with an out-parameter is a value \<open>error + 'a\<close>: \<open>Inl e\<close> is the error
  code \<open>e\<close>, \<open>Inr x\<close> is status \<open>0\<close> with \<open>x\<close> stored through the pointer.
\<close>

datatype error =
    BLADERF_ERR_UNEXPECTED
  | BLADERF_ERR_INVAL
  | BLADERF_ERR_IO
  | BLADERF_ERR_TIMEOUT

type_synonym u8 = "8 word"

text \<open>
  \<open>LMS_READ\<close> and \<open>LMS_WRITE\<close> are macros of \<open>lms.h\<close> over the device's transport.  The
  device \<open>struct bladerf *dev\<close> is a state of an arbitrary type \<open>'d\<close>; a transaction returns
  its status (and the byte read) together with the device afterwards.  Nothing is assumed
  about the transport: a write need not be stored, a read may change the device, and either
  may fail.
\<close>

record 'd bus =
  LMS_READ :: "u8 \<Rightarrow> 'd \<Rightarrow> (error + u8) \<times> 'd"
  LMS_WRITE :: "u8 \<Rightarrow> u8 \<Rightarrow> 'd \<Rightarrow> (error + unit) \<times> 'd"

text \<open>
  \<open>status = m; if (status != 0) return status; f\<close>: run \<open>m\<close>, stop with its error, or go on
  with its value on the device as \<open>m\<close> left it.
\<close>

definition andthen ::
  "('d \<Rightarrow> (error + 'a) \<times> 'd) \<Rightarrow> ('a \<Rightarrow> 'd \<Rightarrow> (error + 'b) \<times> 'd) \<Rightarrow> 'd \<Rightarrow> (error + 'b) \<times> 'd"
where
  "andthen m f d = (case m d of (Inl e, d') \<Rightarrow> (Inl e, d') | (Inr x, d') \<Rightarrow> f x d')"

definition ret :: "'a \<Rightarrow> 'd \<Rightarrow> (error + 'a) \<times> 'd" where
  "ret x d = (Inr x, d)"

definition fail :: "error \<Rightarrow> 'd \<Rightarrow> (error + 'a) \<times> 'd" where
  "fail e d = (Inl e, d)"

text \<open>
  Modelled from the spec: \<open>lms_set\<close> and \<open>lms_clear\<close>, inline functions of the absent \<open>lms.h\<close>:
  "\<open>set(addr, mask)\<close> and \<open>clear(addr, mask)\<close> as read-modify-write helpers built from"
  read and write.
\<close>

definition lms_set :: "'d bus \<Rightarrow> u8 \<Rightarrow> u8 \<Rightarrow> 'd \<Rightarrow> (error + unit) \<times> 'd" where
  "lms_set b addr msk =
     andthen (LMS_READ b addr) (\<lambda>regval. LMS_WRITE b addr (regval OR msk))"

definition lms_clear :: "'d bus \<Rightarrow> u8 \<Rightarrow> u8 \<Rightarrow> 'd \<Rightarrow> (error + unit) \<times> 'd" where
  "lms_clear b addr msk =
     andthen (LMS_READ b addr) (\<lambda>regval. LMS_WRITE b addr (regval AND NOT msk))"

section \<open>Enumerations and constants of the headers\<close>

text \<open>
  The enumerations below are declared in \<open>libbladeRF.h\<close> and \<open>lms.h\<close>.  A \<open>switch\<close> of the
  source with a \<open>default:\<close> branch for a value that is no enumerator has no such branch here:
  the datatype has the enumerators only.
\<close>

datatype bladerf_module = BLADERF_MODULE_RX | BLADERF_MODULE_TX

datatype bladerf_lpf_mode = BLADERF_LPF_NORMAL | BLADERF_LPF_BYPASSED | BLADERF_LPF_DISABLED

datatype bladerf_lna_gain =
  BLADERF_LNA_GAIN_UNKNOWN | BLADERF_LNA_GAIN_BYPASS | BLADERF_LNA_GAIN_MID | BLADERF_LNA_GAIN_MAX



datatype bladerf_loopback =
    BLADERF_LB_BB_TXLPF_RXVGA2
  | BLADERF_LB_BB_TXVGA1_RXVGA2
  | BLADERF_LB_BB_TXLPF_RXLPF
  | BLADERF_LB_BB_TXVGA1_RXLPF
  | BLADERF_LB_RF_LNA1
  | BLADERF_LB_RF_LNA2
  | BLADERF_LB_RF_LNA3
  | BLADERF_LB_NONE

datatype bladerf_cal_module =
    BLADERF_DC_CAL_LPF_TUNING
  | BLADERF_DC_CAL_TX_LPF
  | BLADERF_DC_CAL_RX_LPF
  | BLADERF_DC_CAL_RXVGA2

text \<open>
  Modelled from the spec: the numeric values of the \<open>bladerf_lna_gain\<close> enumerators
  (\<open>libbladeRF.h\<close> is absent).  The LNA gain is a "2-bit enum": the register field holds the
  enumerator, and \<open>lms_lna_get_gain\<close> rejects the field value that is
  \<open>BLADERF_LNA_GAIN_UNKNOWN\<close>.
\<close>

fun lna_gain_value :: "bladerf_lna_gain \<Rightarrow> u8" where
  "lna_gain_value BLADERF_LNA_GAIN_UNKNOWN = 0"
| "lna_gain_value BLADERF_LNA_GAIN_BYPASS = 1"
| "lna_gain_value BLADERF_LNA_GAIN_MID = 2"
| "lna_gain_value BLADERF_LNA_GAIN_MAX = 3"

definition lna_gain_of_value :: "u8 \<Rightarrow> bladerf_lna_gain" where
  "lna_gain_of_value v =
     (if v = 1 then BLADERF_LNA_GAIN_BYPASS
      else if v = 2 then BLADERF_LNA_GAIN_MID
      else if v = 3 then BLADERF_LNA_GAIN_MAX
      else BLADERF_LNA_GAIN_UNKNOWN)"


text \<open>
  The numeric constants of \<open>libbladeRF.h\<close> that \<open>lms.c\<close> uses.  The header is absent, so
  they are a parameter \<open>h\<close> of every function that reads one.
\<close>

record libbladeRF_h =
  BLADERF_FREQUENCY_MIN :: "32 word"
  BLADERF_FREQUENCY_MAX :: "32 word"
  BLADERF_BAND_HIGH :: "32 word"
  BLADERF_RXVGA1_GAIN_MIN :: int
  BLADERF_RXVGA1_GAIN_MAX :: int
  BLADERF_RXVGA2_GAIN_MIN :: int
  BLADERF_RXVGA2_GAIN_MAX :: int
  BLADERF_TXVGA1_GAIN_MIN :: int
  BLADERF_TXVGA1_GAIN_MAX :: int
  BLADERF_TXVGA2_GAIN_MIN :: int
  BLADERF_TXVGA2_GAIN_MAX :: int

text \<open>
  One instance of the constants, for evaluating the functions on concrete inputs: the
  values the bladeRF documentation gives for the LMS6002D (232.5 MHz to 3.8 GHz, band
  split at 1.5 GHz, RXVGA1 5..30 dB, RXVGA2 0..30 dB, TXVGA1 -35..-4 dB, TXVGA2 0..25 dB).
\<close>

definition sample_h :: libbladeRF_h where
  "sample_h = \<lparr>
     BLADERF_FREQUENCY_MIN = 232500000,
     BLADERF_FREQUENCY_MAX = 3800000000,
     BLADERF_BAND_HIGH = 1500000000,
     BLADERF_RXVGA1_GAIN_MIN = 5,
     BLADERF_RXVGA1_GAIN_MAX = 30,
     BLADERF_RXVGA2_GAIN_MIN = 0,
     BLADERF_RXVGA2_GAIN_MAX = 30,
     BLADERF_TXVGA1_GAIN_MIN = - 35,
     BLADERF_TXVGA1_GAIN_MAX = - 4,
     BLADERF_TXVGA2_GAIN_MIN = 0,
     BLADERF_TXVGA2_GAIN_MAX = 25 \<rparr>"

section \<open>Static tables\<close>

record freq_range =
  low :: "32 word"
  high :: "32 word"
  "value" :: u8

text \<open>The FREQSEL table \<open>bands[]\<close>; its first and last bounds are constants of the header.\<close>

definition bands :: "libbladeRF_h \<Rightarrow> freq_range list" where
  "bands h =
     [\<lparr>low = BLADERF_FREQUENCY_MIN h, high = 285625000, value = 0x27\<rparr>,
      \<lparr>low = 285625000, high = 336875000, value = 0x2f\<rparr>,
      \<lparr>low = 336875000, high = 405000000, value = 0x37\<rparr>,
      \<lparr>low = 405000000, high = 465000000, value = 0x3f\<rparr>,
      \<lparr>low = 465000000, high = 571250000, value = 0x26\<rparr>,
      \<lparr>low = 571250000, high = 673750000, value = 0x2e\<rparr>,
      \<lparr>low = 673750000, high = 810000000, value = 0x36\<rparr>,
      \<lparr>low = 810000000, high = 930000000, value = 0x3e\<rparr>,
      \<lparr>low = 930000000, high = 1142500000, value = 0x25\<rparr>,
      \<lparr>low = 1142500000, high = 1347500000, value = 0x2d\<rparr>,
      \<lparr>low = 1347500000, high = 1620000000, value = 0x35\<rparr>,
      \<lparr>low = 1620000000, high = 1860000000, value = 0x3d\<rparr>,
      \<lparr>low = 1860000000, high = 2285000000, value = 0x24\<rparr>,
      \<lparr>low = 2285000000, high = 2695000000, value = 0x2c\<rparr>,
      \<lparr>low = 2695000000, high = 3240000000, value = 0x34\<rparr>,
      \<lparr>low = 3240000000, high = BLADERF_FREQUENCY_MAX h, value = 0x3c\<rparr>]"

definition rxvga1_lut_code2val :: "u8 list" where
  "rxvga1_lut_code2val =
     [5,  5,  5,  5,  5,  5,  5,  5,  6,  6,  6,  6,  6,  6,  6,  6,  6,  6,  6,
      6,  6,  7,  7,  7,  7,  7,  7,  7,  7,  7,  7,  7,  8,  8,  8,  8,  8,  8,
      8,  8,  8,  8,  8,  9,  9,  9,  9,  9,  9,  9,  9,  9,  10, 10, 10, 10, 10,
      10, 10, 10, 11, 11, 11, 11, 11, 11, 11, 12, 12, 12, 12, 12, 12, 12, 13, 13,
      13, 13, 13, 13, 14, 14, 14, 14, 14, 15, 15, 15, 15, 15, 16, 16, 16, 16, 17,
      17, 17, 18, 18, 18, 18, 19, 19, 19, 20, 20, 21, 21, 22, 22, 22, 23, 24, 24,
      25, 25, 26, 27, 28, 29, 30]"

definition rxvga1_lut_val2code :: "u8 list" where
  "rxvga1_lut_val2code =
     [2,  2,  2,  2,   2,   2,   14,  26,  37,  47,  56,  63,  70,  76,  82,  87,
      91, 95, 99, 102, 104, 107, 109, 111, 113, 114, 116, 117, 118, 119, 120]"

section \<open>Bandwidth table (lms.c, \<open>uint_bandwidths\<close>, \<open>lms_uint2bw\<close>, \<open>lms_bw2uint\<close>)\<close>

text \<open>
  The enumeration \<open>lms_bw\<close> is declared in \<open>lms.h\<close>, which is not part of the sources at
  hand; its sixteen enumerators are the ones \<open>lms_uint2bw\<close> names.  \<open>lms_bw2uint\<close> uses an
  enumerator as an index into \<open>uint_bandwidths\<close>.
\<close>

datatype lms_bw =
    BW_28MHz | BW_20MHz | BW_14MHz | BW_12MHz | BW_10MHz | BW_8p75MHz | BW_7MHz | BW_6MHz
  | BW_5p5MHz | BW_5MHz | BW_3p84MHz | BW_3MHz | BW_2p75MHz | BW_2p5MHz | BW_1p75MHz | BW_1p5MHz

text \<open>
  Modelled from the spec: the numeric value of each \<open>lms_bw\<close> enumerator (declared in the
  absent \<open>lms.h\<close>).  The spec stores the selection "as a 4-bit index" into the table that runs
  "28 MHz ... 1.5 MHz", so the enumerators count from 0 in table order.
\<close>

fun lms_bw_value :: "lms_bw \<Rightarrow> nat" where
  "lms_bw_value BW_28MHz = 0"
| "lms_bw_value BW_20MHz = 1"
| "lms_bw_value BW_14MHz = 2"
| "lms_bw_value BW_12MHz = 3"
| "lms_bw_value BW_10MHz = 4"
| "lms_bw_value BW_8p75MHz = 5"
| "lms_bw_value BW_7MHz = 6"
| "lms_bw_value BW_6MHz = 7"
| "lms_bw_value BW_5p5MHz = 8"
| "lms_bw_value BW_5MHz = 9"
| "lms_bw_value BW_3p84MHz = 10"
| "lms_bw_value BW_3MHz = 11"
| "lms_bw_value BW_2p75MHz = 12"
| "lms_bw_value BW_2p5MHz = 13"
| "lms_bw_value BW_1p75MHz = 14"
| "lms_bw_value BW_1p5MHz = 15"

definition kHz :: "nat \<Rightarrow> nat" where
  "kHz x = x * 1000"

definition MHz :: "nat \<Rightarrow> nat" where
  "MHz x = x * 1000000"

definition uint_bandwidths :: "nat list" where
  "uint_bandwidths =
     [MHz 28, MHz 20, MHz 14, MHz 12, MHz 10, kHz 8750, MHz 7, MHz 6,
      kHz 5500, MHz 5, kHz 3840, MHz 3, kHz 2750, kHz 2500, kHz 1750, kHz 1500]"

text \<open>\<open>req\<close> is a C \<open>unsigned int\<close>; it is only compared, never computed with.\<close>

definition lms_uint2bw :: "nat \<Rightarrow> lms_bw" where
  "lms_uint2bw req =
     (if req \<le> kHz 1500 then BW_1p5MHz
      else if req \<le> kHz 1750 then BW_1p75MHz
      else if req \<le> kHz 2500 then BW_2p5MHz
      else if req \<le> kHz 2750 then BW_2p75MHz
      else if req \<le> MHz 3 then BW_3MHz
      else if req \<le> kHz 3840 then BW_3p84MHz
      else if req \<le> MHz 5 then BW_5MHz
      else if req \<le> kHz 5500 then BW_5p5MHz
      else if req \<le> MHz 6 then BW_6MHz
      else if req \<le> MHz 7 then BW_7MHz
      else if req \<le> kHz 8750 then BW_8p75MHz
      else if req \<le> MHz 10 then BW_10MHz
      else if req \<le> MHz 12 then BW_12MHz
      else if req \<le> MHz 14 then BW_14MHz
      else if req \<le> MHz 20 then BW_20MHz
      else BW_28MHz)"

text \<open>\<open>idx = bw & 0xf\<close>; the assertion \<open>idx < ARRAY_SIZE(uint_bandwidths)\<close> always holds.\<close>

definition lms_bw2uint :: "lms_bw \<Rightarrow> nat" where
  "lms_bw2uint bw = uint_bandwidths ! (lms_bw_value bw mod 16)"

section \<open>Low-pass filter mode\<close>

text \<open>\<open>reg\<close> is \<open>0x54\<close> for RX and \<open>0x34\<close> for TX in each of the LPF functions.\<close>

definition lpf_reg :: "bladerf_module \<Rightarrow> u8" where
  "lpf_reg mod' = (if mod' = BLADERF_MODULE_RX then 0x54 else 0x34)"

definition lms_lpf_get_mode ::
  "'d bus \<Rightarrow> bladerf_module \<Rightarrow> 'd \<Rightarrow> (error + bladerf_lpf_mode) \<times> 'd"
where
  "lms_lpf_get_mode b mod' =
     andthen (LMS_READ b (lpf_reg mod')) (\<lambda>data_l.
     andthen (LMS_READ b (lpf_reg mod' + 1)) (\<lambda>data_h.
       let lpf_enabled = (data_l AND push_bit 1 1 \<noteq> 0);
           lpf_bypassed = (data_h AND push_bit 6 1 \<noteq> 0)
       in if lpf_enabled \<and> \<not> lpf_bypassed then ret BLADERF_LPF_NORMAL
          else if \<not> lpf_enabled \<and> lpf_bypassed then ret BLADERF_LPF_BYPASSED
          else if \<not> lpf_enabled \<and> \<not> lpf_bypassed then ret BLADERF_LPF_DISABLED
          else fail BLADERF_ERR_INVAL))"


section \<open>Gain stages and subsystem switches\<close>

definition lms_lna_set_gain :: "'d bus \<Rightarrow> bladerf_lna_gain \<Rightarrow> 'd \<Rightarrow> (error + unit) \<times> 'd" where
  "lms_lna_set_gain b gain =
     (if gain = BLADERF_LNA_GAIN_BYPASS \<or> gain = BLADERF_LNA_GAIN_MID \<or>
         gain = BLADERF_LNA_GAIN_MAX
      then andthen (LMS_READ b 0x75) (\<lambda>data.
             LMS_WRITE b 0x75
               ((data AND NOT (push_bit 6 3)) OR push_bit 6 (lna_gain_value gain AND 3)))
      else fail BLADERF_ERR_INVAL)"

definition lms_lna_get_gain :: "'d bus \<Rightarrow> 'd \<Rightarrow> (error + bladerf_lna_gain) \<times> 'd" where
  "lms_lna_get_gain b =
     andthen (LMS_READ b 0x75) (\<lambda>data.
       let gain = lna_gain_of_value (drop_bit 6 data AND 3)
       in if gain = BLADERF_LNA_GAIN_UNKNOWN then fail BLADERF_ERR_INVAL else ret gain)"



text \<open>
  \<open>gain\<close> is a C \<open>int\<close>.  The table is indexed with the clamped gain; the index is inside the
  table as long as the header's RXVGA1 bounds lie within 0..30.
\<close>

definition lms_rxvga1_set_gain :: "'d bus \<Rightarrow> libbladeRF_h \<Rightarrow> int \<Rightarrow> 'd \<Rightarrow> (error + unit) \<times> 'd" where
  "lms_rxvga1_set_gain b h gain =
     (let gain' = (if gain > BLADERF_RXVGA1_GAIN_MAX h then BLADERF_RXVGA1_GAIN_MAX h
                   else if gain < BLADERF_RXVGA1_GAIN_MIN h then BLADERF_RXVGA1_GAIN_MIN h
                   else gain)
      in LMS_WRITE b 0x76 (rxvga1_lut_val2code ! nat gain'))"

definition lms_rxvga1_get_gain :: "'d bus \<Rightarrow> 'd \<Rightarrow> (error + int) \<times> 'd" where
  "lms_rxvga1_get_gain b =
     andthen (LMS_READ b 0x76) (\<lambda>data.
       let data1 = data AND 0x7f;
           data2 = (if data1 > 120 then 120 else data1)
       in ret (uint (rxvga1_lut_code2val ! unat data2)))"


text \<open>C's \<open>/\<close> on \<open>int\<close> truncates towards zero.\<close>

definition c_div :: "int \<Rightarrow> int \<Rightarrow> int" where
  "c_div a c = sgn a * sgn c * (\<bar>a\<bar> div \<bar>c\<bar>)"

definition lms_rxvga2_set_gain :: "'d bus \<Rightarrow> libbladeRF_h \<Rightarrow> int \<Rightarrow> 'd \<Rightarrow> (error + unit) \<times> 'd" where
  "lms_rxvga2_set_gain b h gain =
     (let gain' = (if gain > BLADERF_RXVGA2_GAIN_MAX h then BLADERF_RXVGA2_GAIN_MAX h
                   else if gain < BLADERF_RXVGA2_GAIN_MIN h then BLADERF_RXVGA2_GAIN_MIN h
                   else gain)
      in LMS_WRITE b 0x65 (word_of_int (c_div gain' 3)))"

definition lms_rxvga2_get_gain :: "'d bus \<Rightarrow> 'd \<Rightarrow> (error + int) \<times> 'd" where
  "lms_rxvga2_get_gain b =
     andthen (LMS_READ b 0x65) (\<lambda>data. ret (uint (data * 3)))"






section \<open>Loopback\<close>

definition LBEN_OPIN :: u8 where "LBEN_OPIN = push_bit 4 1"
definition LBEN_VGA2IN :: u8 where "LBEN_VGA2IN = push_bit 5 1"
definition LBEN_LPFIN :: u8 where "LBEN_LPFIN = push_bit 6 1"
definition LBEN_MASK :: u8 where "LBEN_MASK = (LBEN_OPIN OR LBEN_VGA2IN OR LBEN_LPFIN)"

definition LBRFEN_LNA1 :: u8 where "LBRFEN_LNA1 = 1"
definition LBRFEN_LNA2 :: u8 where "LBRFEN_LNA2 = 2"
definition LBRFEN_LNA3 :: u8 where "LBRFEN_LNA3 = 3"
definition LBRFEN_MASK :: u8 where "LBRFEN_MASK = 0xf"

definition LOOPBBEN_TXLPF :: u8 where "LOOPBBEN_TXLPF = push_bit 2 1"
definition LOOPBBEN_TXVGA :: u8 where "LOOPBBEN_TXVGA = push_bit 2 2"
definition LOOPBBEN_ENVPK :: u8 where "LOOPBBEN_ENVPK = push_bit 2 3"
definition LOOBBBEN_MASK :: u8 where "LOOBBBEN_MASK = push_bit 2 3"

text \<open>
  The decoding of \<open>lms_get_loopback_mode\<close> from the two bytes it has read: the first
  \<open>switch\<close> on the RF field, then the \<open>switch\<close> on the baseband destination with the tests
  of the baseband source, then the fall-through to \<open>BLADERF_LB_NONE\<close>.
\<close>

definition loopback_decode :: "u8 \<Rightarrow> u8 \<Rightarrow> bladerf_loopback" where
  "loopback_decode lben_lbrfen loopbben =
     (if lben_lbrfen AND 0x7 = LBRFEN_LNA1 then BLADERF_LB_RF_LNA1
      else if lben_lbrfen AND 0x7 = LBRFEN_LNA2 then BLADERF_LB_RF_LNA2
      else if lben_lbrfen AND 0x7 = LBRFEN_LNA3 then BLADERF_LB_RF_LNA3
      else if lben_lbrfen AND LBEN_MASK = LBEN_VGA2IN then
        (if loopbben AND LOOPBBEN_TXLPF \<noteq> 0 then BLADERF_LB_BB_TXLPF_RXVGA2
         else if loopbben AND LOOPBBEN_TXVGA \<noteq> 0 then BLADERF_LB_BB_TXVGA1_RXVGA2
         else BLADERF_LB_NONE)
      else if lben_lbrfen AND LBEN_MASK = LBEN_LPFIN then
        (if loopbben AND LOOPBBEN_TXLPF \<noteq> 0 then BLADERF_LB_BB_TXLPF_RXLPF
         else if loopbben AND LOOPBBEN_TXVGA \<noteq> 0 then BLADERF_LB_BB_TXVGA1_RXLPF
         else BLADERF_LB_NONE)
      else BLADERF_LB_NONE)"

definition lms_get_loopback_mode :: "'d bus \<Rightarrow> 'd \<Rightarrow> (error + bladerf_loopback) \<times> 'd" where
  "lms_get_loopback_mode b =
     andthen (LMS_READ b 0x08) (\<lambda>lben_lbrfen.
     andthen (LMS_READ b 0x46) (\<lambda>loopbben.
       ret (loopback_decode lben_lbrfen loopbben)))"

text \<open>
  \<open>is_loopback_enabled\<close> returns a negative status, or 0 or 1; here an error or a truth
  value.
\<close>

definition is_loopback_enabled :: "'d bus \<Rightarrow> 'd \<Rightarrow> (error + bool) \<times> 'd" where
  "is_loopback_enabled b =
     andthen (lms_get_loopback_mode b) (\<lambda>loopback. ret (loopback \<noteq> BLADERF_LB_NONE))"



section \<open>Frequency synthesizer\<close>

text \<open>
  \<open>struct lms_freq\<close> is declared in \<open>lms.h\<close>; the widths of its fields are those of the
  variables and casts that \<open>lms_set_frequency\<close> and \<open>lms_get_frequency\<close> assign to them.
  Its field \<open>x\<close> is \<open>lms_x\<close> here.
\<close>

record lms_freq =
  lms_x :: "8 word"
  nint :: "16 word"
  nfrac :: "32 word"
  freqsel :: "8 word"
  reference :: "32 word"

text \<open>
  \<open>div\<close> is \<open>uint32_t\<close>, \<open>pll_coeff\<close> is \<open>uint64_t\<close>, and the quotient is computed in 64 bits
  and cut to 32.  (For \<open>x = 0\<close> the C divides by zero; the word quotient is 0 then.)
\<close>

definition lms_frequency_to_hz :: "lms_freq \<Rightarrow> 32 word" where
  "lms_frequency_to_hz f =
     (let pll_coeff :: 64 word = push_bit 23 (ucast (nint f)) + ucast (nfrac f);
          div' :: 32 word = push_bit 23 (ucast (lms_x f))
      in ucast ((ucast (reference f) * pll_coeff + ucast (drop_bit 1 div')) div ucast div'))"

text \<open>
  \<open>1 << ((freqsel & 7) - 3)\<close>.  The shift count is an \<open>int\<close>; for \<open>(freqsel & 7) < 3\<close> it is
  negative and the C is undefined, where this definition shifts by 0.  Every \<open>freqsel\<close> of
  the table \<open>bands\<close> has \<open>(freqsel & 7) \<ge> 4\<close>.
\<close>

definition vco_shift :: "u8 \<Rightarrow> nat" where
  "vco_shift fsel = unat (fsel AND 7) - 3"


definition VCO_HIGH :: u8 where "VCO_HIGH = 0x02"
definition VCO_NORM :: u8 where "VCO_NORM = 0x00"
definition VCO_LOW :: u8 where "VCO_LOW = 0x01"

text \<open>
  The congruence rule that lets a recursive function call itself in the continuation of
  \<open>andthen\<close>: the continuation runs only on a value and a device that the first part
  returned.
\<close>

lemma andthen_cong [fundef_cong]:
  assumes "m d = m' d'"
    and "\<And>v d1. m' d' = (Inr v, d1) \<Longrightarrow> f v d1 = f' v d1"
  shows "andthen m f d = andthen m' f' d'"
  using assms by (auto simp add: andthen_def split: prod.splits sum.splits)

text \<open>
  The \<open>for (i = 0; i < 6; i++)\<close> loop of \<open>tune_vcocap\<close>, from the test of \<open>i\<close> on.  It
  returns \<open>vcocap\<close> and \<open>vtune\<close> as they are when the loop is left by \<open>break\<close> or by \<open>i = 6\<close>;
  an invalid \<open>vtune\<close> and a failed transaction return from \<open>tune_vcocap\<close> itself.
\<close>

function tune_vcocap_search ::
  "'d bus \<Rightarrow> u8 \<Rightarrow> u8 \<Rightarrow> nat \<Rightarrow> u8 \<Rightarrow> u8 \<Rightarrow> u8 \<Rightarrow> 'd \<Rightarrow> (error + u8 \<times> u8) \<times> 'd"
where
  "tune_vcocap_search b base data i vcocap step vtune d =
     (if i < 6 then
        andthen (LMS_WRITE b (base + 9) (vcocap OR data)) (\<lambda>_.
        andthen (LMS_READ b (base + 10)) (\<lambda>vtune0. \<lambda>d'.
          let vtune' = drop_bit 6 vtune0
          in if vtune' = VCO_NORM then ret (vcocap, vtune') d'
             else if vtune' = VCO_HIGH then
               tune_vcocap_search b base data (i + 1) (vcocap + step) (drop_bit 1 step) vtune' d'
             else if vtune' = VCO_LOW then
               tune_vcocap_search b base data (i + 1) (vcocap - step) (drop_bit 1 step) vtune' d'
             else fail BLADERF_ERR_UNEXPECTED d')) d
      else ret (vcocap, vtune) d)"
  by pat_completeness auto
termination
  by (relation "measure (\<lambda>(b, base, data, i, vcocap, step, vtune, d). 6 - i)") auto

declare tune_vcocap_search.simps [simp del]

text \<open>
  \<open>while (start_i > 0 && vtune != VCO_HIGH)\<close>: \<open>start_i\<close> is an \<open>int\<close>, and \<open>start_i | data\<close> is
  cut to the byte that is written.
\<close>

function tune_vcocap_scan_down ::
  "'d bus \<Rightarrow> u8 \<Rightarrow> u8 \<Rightarrow> int \<Rightarrow> u8 \<Rightarrow> 'd \<Rightarrow> (error + int \<times> u8) \<times> 'd"
where
  "tune_vcocap_scan_down b base data start_i vtune d =
     (if start_i > 0 \<and> vtune \<noteq> VCO_HIGH then
        andthen (LMS_WRITE b (base + 9) (word_of_int (start_i - 1) OR data)) (\<lambda>_.
        andthen (LMS_READ b (base + 10)) (\<lambda>vtune0. \<lambda>d'.
          tune_vcocap_scan_down b base data (start_i - 1) (drop_bit 6 vtune0) d')) d
      else ret (start_i, vtune) d)"
  by pat_completeness auto
termination
  by (relation "measure (\<lambda>(b, base, data, start_i, vtune, d). nat start_i)") auto

declare tune_vcocap_scan_down.simps [simp del]

text \<open>\<open>while (stop_i < 64 && vtune != VCO_LOW)\<close>.\<close>

function tune_vcocap_scan_up ::
  "'d bus \<Rightarrow> u8 \<Rightarrow> u8 \<Rightarrow> int \<Rightarrow> u8 \<Rightarrow> 'd \<Rightarrow> (error + int \<times> u8) \<times> 'd"
where
  "tune_vcocap_scan_up b base data stop_i vtune d =
     (if stop_i < 64 \<and> vtune \<noteq> VCO_LOW then
        andthen (LMS_WRITE b (base + 9) (word_of_int (stop_i + 1) OR data)) (\<lambda>_.
        andthen (LMS_READ b (base + 10)) (\<lambda>vtune0. \<lambda>d'.
          tune_vcocap_scan_up b base data (stop_i + 1) (drop_bit 6 vtune0) d')) d
      else ret (stop_i, vtune) d)"
  by pat_completeness auto
termination
  by (relation "measure (\<lambda>(b, base, data, stop_i, vtune, d). nat (64 - stop_i))") auto

declare tune_vcocap_scan_up.simps [simp del]

text \<open>
  \<open>tune_vcocap\<close>.  Its parameter \<open>data\<close> is overwritten by the first read.  \<open>vtune\<close> has no
  value before the first pass of the \<open>for\<close> loop, which always assigns it; the loop is
  started here with \<open>VCO_NORM\<close> in it.  \<open>(start_i + stop_i) >> 1\<close> is computed on \<open>int\<close> and
  cut to the \<open>uint8_t vcocap\<close>.
\<close>

definition tune_vcocap :: "'d bus \<Rightarrow> u8 \<Rightarrow> u8 \<Rightarrow> 'd \<Rightarrow> (error + unit) \<times> 'd" where
  "tune_vcocap b base data_arg =
     andthen (LMS_READ b (base + 9)) (\<lambda>data0.
       let data = data0 AND NOT 0x3f
       in andthen (tune_vcocap_search b base data 0 32 (drop_bit 1 32) VCO_NORM) (\<lambda>(vcocap, vtune).
          if vtune \<noteq> VCO_NORM then fail BLADERF_ERR_UNEXPECTED
          else
            andthen (tune_vcocap_scan_down b base data (uint vcocap) vtune) (\<lambda>(start_i0, _).
              let start_i = start_i0 + 1
              in andthen (LMS_WRITE b (base + 9) (vcocap OR data)) (\<lambda>_.
                 andthen (LMS_READ b (base + 10)) (\<lambda>vtune1.
                 andthen (tune_vcocap_scan_up b base data (uint vcocap) (drop_bit 6 vtune1))
                   (\<lambda>(stop_i0, _).
                     let stop_i = stop_i0 - 1;
                         vcocap' :: u8 = word_of_int (drop_bit 1 (start_i + stop_i))
                     in andthen (LMS_WRITE b (base + 9) (vcocap' OR data)) (\<lambda>_.
                        andthen (LMS_READ b (base + 10)) (\<lambda>vtune2.
                          if drop_bit 6 vtune2 \<noteq> VCO_NORM then fail BLADERF_ERR_UNEXPECTED
                          else ret ()))))))))"

text \<open>
  The search of \<open>lms_set_frequency\<close> for \<open>freqsel\<close>: the entries of \<open>bands\<close> in ascending
  order, the first one that contains \<open>freq\<close>; \<open>fsel\<close> is the initial \<open>bands[0].value\<close>.
\<close>

fun band_search :: "freq_range list \<Rightarrow> 32 word \<Rightarrow> u8 \<Rightarrow> u8" where
  "band_search [] freq fsel = fsel"
| "band_search (r # rs) freq fsel =
     (if freq \<ge> low r \<and> freq \<le> high r then value r else band_search rs freq fsel)"

definition clamp_frequency :: "libbladeRF_h \<Rightarrow> 32 word \<Rightarrow> 32 word" where
  "clamp_frequency h freq =
     (if freq < BLADERF_FREQUENCY_MIN h then BLADERF_FREQUENCY_MIN h
      else if freq > BLADERF_FREQUENCY_MAX h then BLADERF_FREQUENCY_MAX h
      else freq)"

text \<open>
  The \<open>struct lms_freq f\<close> that \<open>lms_set_frequency\<close> computes from the clamped \<open>freq\<close> before
  it touches a register.  \<open>vco_x\<close> and \<open>temp\<close> are \<open>uint64_t\<close>, \<open>nint\<close> is \<open>uint16_t\<close>,
  \<open>nfrac\<close> is \<open>uint32_t\<close>; the assertions on the casts are not modelled, the casts cut.
\<close>

definition lms_set_frequency_calc :: "libbladeRF_h \<Rightarrow> 32 word \<Rightarrow> lms_freq" where
  "lms_set_frequency_calc h freq =
     (let ref_clock :: 64 word = 38400000;
          fsel :: u8 = band_search (bands h) freq (value (hd (bands h)));
          vco_x :: 64 word = push_bit (vco_shift fsel) 1;
          temp :: 64 word = (vco_x * ucast freq) div ref_clock;
          nint' :: 16 word = ucast temp;
          temp1 :: 64 word = push_bit 23 1 * (vco_x * ucast freq - ucast nint' * ref_clock);
          temp2 :: 64 word = (temp1 + ref_clock div 2) div ref_clock;
          nfrac' :: 32 word = ucast temp2
      in \<lparr> lms_x = ucast vco_x, nint = nint', nfrac = nfrac', freqsel = fsel,
           reference = ucast ref_clock \<rparr>)"

text \<open>
  The four bytes \<open>lms_set_frequency\<close> writes to \<open>base + 0\<close> .. \<open>base + 3\<close>:
  \<open>nint >> 1\<close>, \<open>((nint & 1) << 7) | ((nfrac >> 16) & 0x7f)\<close>, \<open>(nfrac >> 8) & 0xff\<close> and
  \<open>nfrac & 0xff\<close>, each cut to \<open>uint8_t\<close>.
\<close>

definition pll_divider_regs :: "16 word \<Rightarrow> 32 word \<Rightarrow> u8 \<times> u8 \<times> u8 \<times> u8" where
  "pll_divider_regs nint' nfrac' =
     (ucast (drop_bit 1 nint'),
      ucast (push_bit 7 (nint' AND 1)) OR ucast (drop_bit 16 nfrac' AND 0x7f),
      ucast (drop_bit 8 nfrac' AND 0xff),
      ucast (nfrac' AND 0xff))"

definition write_pll_config ::
  "'d bus \<Rightarrow> libbladeRF_h \<Rightarrow> bladerf_module \<Rightarrow> 32 word \<Rightarrow> u8 \<Rightarrow> 'd \<Rightarrow> (error + unit) \<times> 'd"
where
  "write_pll_config b h module frequency fsel =
     (let addr :: u8 = (if module = BLADERF_MODULE_TX then 0x15 else 0x25)
      in andthen (LMS_READ b addr) (\<lambda>regval.
         andthen (is_loopback_enabled b) (\<lambda>lb.
           if \<not> lb then
             let selout :: u8 = (if frequency < BLADERF_BAND_HIGH h then 1 else 2)
             in LMS_WRITE b addr (push_bit 2 fsel OR selout)
           else LMS_WRITE b addr ((regval AND NOT 0xfc) OR push_bit 2 fsel))))"

text \<open>
  The part of \<open>lms_set_frequency\<close> between the enabling of the delta-sigma modulators and the
  label \<open>lms_set_frequency_error\<close>: every failure jumps to the label, and so does the end.
\<close>

definition lms_set_frequency_steps ::
  "'d bus \<Rightarrow> libbladeRF_h \<Rightarrow> bladerf_module \<Rightarrow> 32 word \<Rightarrow> lms_freq \<Rightarrow> 'd \<Rightarrow> (error + unit) \<times> 'd"
where
  "lms_set_frequency_steps b h mod' freq f =
     (let base :: u8 = (if mod' = BLADERF_MODULE_RX then 0x20 else 0x10);
          (r0, r1, r2, r3) = pll_divider_regs (nint f) (nfrac f)
      in andthen (write_pll_config b h mod' freq (freqsel f)) (\<lambda>_.
         andthen (LMS_WRITE b (base + 0) r0) (\<lambda>_.
         andthen (LMS_WRITE b (base + 1) r1) (\<lambda>_.
         andthen (LMS_WRITE b (base + 2) r2) (\<lambda>_.
         andthen (LMS_WRITE b (base + 3) r3) (\<lambda>_.
         andthen (LMS_READ b (base + 6)) (\<lambda>data6.
         andthen (LMS_WRITE b (base + 6) ((data6 AND NOT 0x1f) OR 0x0c)) (\<lambda>_.
         andthen (LMS_READ b (base + 7)) (\<lambda>data7.
         andthen (LMS_WRITE b (base + 7) (data7 AND NOT 0x1f)) (\<lambda>_.
         andthen (LMS_READ b (base + 8)) (\<lambda>data8.
         andthen (LMS_WRITE b (base + 8) (data8 AND NOT 0x1f)) (\<lambda>_.
           tune_vcocap b base (data8 AND NOT 0x1f)))))))))))))"

text \<open>
  \<open>lms_set_frequency\<close>: clamp, compute \<open>f\<close>, turn the DSMs on (a failure returns at once),
  run the steps, then at the label turn the DSMs off and return
  \<open>(status == 0) ? dsm_status : status\<close>.
\<close>

definition lms_set_frequency ::
  "'d bus \<Rightarrow> libbladeRF_h \<Rightarrow> bladerf_module \<Rightarrow> 32 word \<Rightarrow> 'd \<Rightarrow> (error + unit) \<times> 'd"
where
  "lms_set_frequency b h mod' freq0 =
     (let freq = clamp_frequency h freq0;
          f = lms_set_frequency_calc h freq
      in andthen
           (andthen (LMS_READ b 0x09) (\<lambda>data. LMS_WRITE b 0x09 (data OR 0x05)))
           (\<lambda>_ d1.
              case lms_set_frequency_steps b h mod' freq f d1 of (status, d2) \<Rightarrow>
              case andthen (LMS_READ b 0x09) (\<lambda>data. LMS_WRITE b 0x09 (data AND NOT 0x05)) d2
              of (dsm_status, d3) \<Rightarrow>
                ((case status of Inr _ \<Rightarrow> dsm_status | Inl e \<Rightarrow> Inl e), d3)))"


section \<open>Setting a loopback mode\<close>





section \<open>DC calibration\<close>

text \<open>
  The polling loop of \<open>lms_dc_cal_loop\<close>, \<open>for (i = 0; i < max_cal_count && !done; i++)\<close> with
  \<open>max_cal_count = 25\<close>, from the test of \<open>i\<close> on with \<open>done\<close> still false.  When the
  active-low \<open>DC_CLBR_DONE\<close> bit reads 0 the loop ends with \<open>DC_REGVAL & 0x3f\<close> (or with the
  status of that read); when \<open>i\<close> reaches 25 the function returns \<open>BLADERF_ERR_UNEXPECTED\<close>.
\<close>

function lms_dc_cal_poll :: "'d bus \<Rightarrow> u8 \<Rightarrow> nat \<Rightarrow> 'd \<Rightarrow> (error + u8) \<times> 'd" where
  "lms_dc_cal_poll b base i d =
     (if i < 25 then
        andthen (LMS_READ b (base + 0x01)) (\<lambda>val d'.
          if drop_bit 1 val AND 1 = 0
          then andthen (LMS_READ b base) (\<lambda>dc_regval. ret (dc_regval AND 0x3f)) d'
          else lms_dc_cal_poll b base (i + 1) d') d
      else fail BLADERF_ERR_UNEXPECTED d)"
  by pat_completeness auto
termination
  by (relation "measure (\<lambda>(b, base, i, d). 25 - i)") auto

declare lms_dc_cal_poll.simps [simp del]

definition lms_dc_cal_loop :: "'d bus \<Rightarrow> u8 \<Rightarrow> u8 \<Rightarrow> u8 \<Rightarrow> 'd \<Rightarrow> (error + u8) \<times> 'd" where
  "lms_dc_cal_loop b base cal_address dc_cntval =
     andthen (LMS_READ b (base + 0x03)) (\<lambda>val0.
       let val1 = (val0 AND NOT 0x07) OR (cal_address AND 0x07);
           val2 = val1 OR push_bit 4 1;
           val3 = val2 AND NOT (push_bit 4 1);
           val4 = val3 OR push_bit 5 1;
           val5 = val4 AND NOT (push_bit 5 1)
       in andthen (LMS_WRITE b (base + 0x03) val1) (\<lambda>_.
          andthen (LMS_WRITE b (base + 0x02) dc_cntval) (\<lambda>_.
          andthen (LMS_WRITE b (base + 0x03) val2) (\<lambda>_.
          andthen (LMS_WRITE b (base + 0x03) val3) (\<lambda>_.
          andthen (LMS_WRITE b (base + 0x03) val4) (\<lambda>_.
          andthen (LMS_WRITE b (base + 0x03) val5) (\<lambda>_.
            lms_dc_cal_poll b base 0)))))))"

record dc_cal_state =
  clk_en :: u8
  reg0x71 :: u8
  reg0x7c :: u8
  lna_gain :: bladerf_lna_gain
  rxvga1_gain :: int
  rxvga2_gain :: int
  base_addr :: u8
  num_submodules :: nat
  rxvga1_curr_gain :: int
  rxvga2_curr_gain :: int

text \<open>\<open>memset(state, 0, sizeof(state[0]))\<close>.\<close>

definition dc_cal_state_zero :: dc_cal_state where
  "dc_cal_state_zero = \<lparr>
     clk_en = 0, reg0x71 = 0, reg0x7c = 0, lna_gain = BLADERF_LNA_GAIN_UNKNOWN,
     rxvga1_gain = 0, rxvga2_gain = 0, base_addr = 0, num_submodules = 0,
     rxvga1_curr_gain = 0, rxvga2_curr_gain = 0 \<rparr>"

definition dc_cal_backup ::
  "'d bus \<Rightarrow> bladerf_cal_module \<Rightarrow> 'd \<Rightarrow> (error + dc_cal_state) \<times> 'd"
where
  "dc_cal_backup b module =
     andthen (LMS_READ b 0x09) (\<lambda>v09.
       let state = dc_cal_state_zero\<lparr>clk_en := v09\<rparr>
       in if module = BLADERF_DC_CAL_RX_LPF \<or> module = BLADERF_DC_CAL_RXVGA2 then
            andthen (LMS_READ b 0x71) (\<lambda>v71.
            andthen (LMS_READ b 0x7c) (\<lambda>v7c.
            andthen (lms_lna_get_gain b) (\<lambda>lna.
            andthen (lms_rxvga1_get_gain b) (\<lambda>g1.
            andthen (lms_rxvga2_get_gain b) (\<lambda>g2.
              ret (state\<lparr>reg0x71 := v71, reg0x7c := v7c, lna_gain := lna,
                         rxvga1_gain := g1, rxvga2_gain := g2\<rparr>))))))
          else ret state)"

text \<open>
  \<open>dc_cal_module_init\<close> returns the state it has filled in.  When it fails, the fields it
  had already set (\<open>base_addr\<close>, \<open>num_submodules\<close>, the current gains) are not read again:
  deinit and restore read the fields that the backup set.
\<close>

definition dc_cal_module_init ::
  "'d bus \<Rightarrow> libbladeRF_h \<Rightarrow> bladerf_cal_module \<Rightarrow> dc_cal_state \<Rightarrow> 'd
     \<Rightarrow> (error + dc_cal_state) \<times> 'd"
where
  "dc_cal_module_init b h module state =
     (let (cal_clock :: u8, base' :: u8, n :: nat) =
            (case module of
               BLADERF_DC_CAL_LPF_TUNING \<Rightarrow> (push_bit 5 1, 0x00, 1)
             | BLADERF_DC_CAL_TX_LPF \<Rightarrow> (push_bit 1 1, 0x30, 2)
             | BLADERF_DC_CAL_RX_LPF \<Rightarrow> (push_bit 3 1, 0x50, 2)
             | BLADERF_DC_CAL_RXVGA2 \<Rightarrow> (push_bit 4 1, 0x60, 5));
          state1 = state\<lparr>base_addr := base', num_submodules := n\<rparr>;
          rx_setup =
            andthen (if module = BLADERF_DC_CAL_RXVGA2
                     then lms_clear b 0x6e (push_bit 6 3)
                     else lms_clear b 0x5f (push_bit 7 1)) (\<lambda>_.
            andthen (LMS_WRITE b 0x71 (reg0x71 state AND NOT (push_bit 7 1))) (\<lambda>_.
            andthen (LMS_WRITE b 0x7c (reg0x7c state OR push_bit 2 1)) (\<lambda>_.
            andthen (lms_lna_set_gain b BLADERF_LNA_GAIN_MAX) (\<lambda>_.
            andthen (lms_rxvga1_set_gain b h (BLADERF_RXVGA1_GAIN_MAX h)) (\<lambda>_.
            andthen (lms_rxvga2_set_gain b h (BLADERF_RXVGA2_GAIN_MAX h)) (\<lambda>_.
              ret (state1\<lparr>rxvga1_curr_gain := BLADERF_RXVGA1_GAIN_MAX h,
                          rxvga2_curr_gain := BLADERF_RXVGA2_GAIN_MAX h\<rparr>)))))))
      in andthen (LMS_WRITE b 0x09 (clk_en state OR cal_clock)) (\<lambda>_.
           case module of
             BLADERF_DC_CAL_LPF_TUNING \<Rightarrow> ret state1
           | BLADERF_DC_CAL_RX_LPF \<Rightarrow> rx_setup
           | BLADERF_DC_CAL_RXVGA2 \<Rightarrow> rx_setup
           | BLADERF_DC_CAL_TX_LPF \<Rightarrow>
               andthen (lms_set b 0x36 (push_bit 7 1)) (\<lambda>_.
               andthen (lms_clear b 0x3f (push_bit 7 1)) (\<lambda>_.
                 ret state1))))"

text \<open>
  The register set-up that \<open>dc_cal_submodule\<close> does for the RXVGA2 module before it runs the
  calibration loop (the \<open>switch (submodule)\<close>).
\<close>

definition dc_cal_submodule_setup ::
  "'d bus \<Rightarrow> bladerf_cal_module \<Rightarrow> nat \<Rightarrow> 'd \<Rightarrow> (error + unit) \<times> 'd"
where
  "dc_cal_submodule_setup b module submodule =
     (if module = BLADERF_DC_CAL_RXVGA2 then
        (if submodule = 0 then
           andthen (lms_clear b 0x64 (push_bit 0 1)) (\<lambda>_. LMS_WRITE b 0x68 0x01)
         else if submodule = 1 then
           andthen (lms_set b 0x64 (push_bit 0 1)) (\<lambda>_. LMS_WRITE b 0x68 0x06)
         else if submodule = 2 then ret ()
         else if submodule = 3 then LMS_WRITE b 0x68 0x60
         else if submodule = 4 then ret ()
         else fail BLADERF_ERR_UNEXPECTED)
      else ret ())"

text \<open>
  The end of \<open>dc_cal_submodule\<close>: for the LPF tuning module the value is copied into the TX
  and RX LPF registers; then \<open>*converged = true\<close>.
\<close>

definition dc_cal_submodule_finish ::
  "'d bus \<Rightarrow> bladerf_cal_module \<Rightarrow> u8 \<Rightarrow> 'd \<Rightarrow> (error + bool) \<times> 'd"
where
  "dc_cal_submodule_finish b module dc_regval =
     (if module = BLADERF_DC_CAL_LPF_TUNING then
        andthen (LMS_READ b 0x35) (\<lambda>val.
        andthen (LMS_WRITE b 0x35 ((val AND NOT 0x3f) OR dc_regval)) (\<lambda>_.
        andthen (LMS_READ b 0x55) (\<lambda>val.
        andthen (LMS_WRITE b 0x55 ((val AND NOT 0x3f) OR dc_regval)) (\<lambda>_.
          ret True))))
      else ret True)"

text \<open>
  \<open>dc_cal_submodule\<close> returns its status and \<open>*converged\<close>.  \<open>*converged\<close> is set to false at
  the start and to true only at the very end; the \<open>return 0\<close> after the retry that reads 0
  leaves it false.
\<close>

definition dc_cal_submodule ::
  "'d bus \<Rightarrow> bladerf_cal_module \<Rightarrow> nat \<Rightarrow> dc_cal_state \<Rightarrow> 'd \<Rightarrow> (error + bool) \<times> 'd"
where
  "dc_cal_submodule b module submodule state =
     andthen (dc_cal_submodule_setup b module submodule) (\<lambda>_.
     andthen (lms_dc_cal_loop b (base_addr state) (of_nat submodule) 31) (\<lambda>dc_regval.
       if dc_regval = 31 then
         andthen (lms_dc_cal_loop b (base_addr state) (of_nat submodule) 0) (\<lambda>dc_regval'.
           if dc_regval' = 0 then ret False
           else dc_cal_submodule_finish b module dc_regval')
       else dc_cal_submodule_finish b module dc_regval))"

text \<open>
  \<open>dc_cal_retry_adjustment\<close> returns its status, \<open>*limit_reached\<close> and the state with the
  lowered current gain.
\<close>

definition dc_cal_retry_adjustment ::
  "'d bus \<Rightarrow> libbladeRF_h \<Rightarrow> bladerf_cal_module \<Rightarrow> dc_cal_state \<Rightarrow> bool \<Rightarrow> 'd
     \<Rightarrow> (error + bool \<times> dc_cal_state) \<times> 'd"
where
  "dc_cal_retry_adjustment b h module state limit_reached =
     (case module of
        BLADERF_DC_CAL_LPF_TUNING \<Rightarrow> ret (True, state)
      | BLADERF_DC_CAL_TX_LPF \<Rightarrow> ret (True, state)
      | BLADERF_DC_CAL_RX_LPF \<Rightarrow>
          if rxvga1_curr_gain state > BLADERF_RXVGA1_GAIN_MIN h then
            let state' = state\<lparr>rxvga1_curr_gain := rxvga1_curr_gain state - 1\<rparr>
            in andthen (lms_rxvga1_set_gain b h (rxvga1_curr_gain state')) (\<lambda>_.
                 ret (limit_reached, state'))
          else ret (True, state)
      | BLADERF_DC_CAL_RXVGA2 \<Rightarrow>
          if rxvga1_curr_gain state > BLADERF_RXVGA1_GAIN_MIN h then
            let state' = state\<lparr>rxvga1_curr_gain := rxvga1_curr_gain state - 1\<rparr>
            in andthen (lms_rxvga1_set_gain b h (rxvga1_curr_gain state')) (\<lambda>_.
                 ret (limit_reached, state'))
          else if rxvga2_curr_gain state > BLADERF_RXVGA2_GAIN_MIN h then
            let state' = state\<lparr>rxvga2_curr_gain := rxvga2_curr_gain state - 3\<rparr>
            in andthen (lms_rxvga2_set_gain b h (rxvga2_curr_gain state')) (\<lambda>_.
                 ret (limit_reached, state'))
          else ret (True, state))"

definition dc_cal_module_deinit ::
  "'d bus \<Rightarrow> bladerf_cal_module \<Rightarrow> dc_cal_state \<Rightarrow> 'd \<Rightarrow> (error + unit) \<times> 'd"
where
  "dc_cal_module_deinit b module state =
     (case module of
        BLADERF_DC_CAL_LPF_TUNING \<Rightarrow> ret ()
      | BLADERF_DC_CAL_RX_LPF \<Rightarrow> lms_set b 0x5f (push_bit 7 1)
      | BLADERF_DC_CAL_RXVGA2 \<Rightarrow>
          andthen (LMS_WRITE b 0x68 0x01) (\<lambda>_.
          andthen (lms_clear b 0x64 (push_bit 0 1)) (\<lambda>_.
            lms_set b 0x6e (push_bit 6 3)))
      | BLADERF_DC_CAL_TX_LPF \<Rightarrow>
          andthen (lms_set b 0x3f (push_bit 7 1)) (\<lambda>_.
            lms_clear b 0x36 (push_bit 7 1)))"

text \<open>
  \<open>dc_cal_restore\<close> performs every write whatever the earlier ones returned.  \<open>ret\<close> takes
  the first failing status, except that a failure of the last call replaces it.
\<close>

definition dc_cal_restore ::
  "'d bus \<Rightarrow> libbladeRF_h \<Rightarrow> bladerf_cal_module \<Rightarrow> dc_cal_state \<Rightarrow> 'd \<Rightarrow> (error + unit) \<times> 'd"
where
  "dc_cal_restore b h module state d =
     (let first = (\<lambda>ret' status. if status \<noteq> Inr () \<and> ret' = Inr () then status else ret');
          (status1, d1) = LMS_WRITE b 0x09 (clk_en state) d;
          ret1 = (if status1 \<noteq> Inr () then status1 else Inr ())
      in if module = BLADERF_DC_CAL_RX_LPF \<or> module = BLADERF_DC_CAL_RXVGA2 then
           (let (status2, d2) = LMS_WRITE b 0x71 (reg0x71 state) d1;
                ret2 = first ret1 status2;
                (status3, d3) = LMS_WRITE b 0x7c (reg0x7c state) d2;
                ret3 = first ret2 status3;
                (status4, d4) = lms_lna_set_gain b (lna_gain state) d3;
                ret4 = first ret3 status4;
                (status5, d5) = lms_rxvga1_set_gain b h (rxvga1_gain state) d4;
                ret5 = first ret4 status5;
                (status6, d6) = lms_rxvga2_set_gain b h (rxvga2_gain state) d5;
                ret6 = (if status6 \<noteq> Inr () then status6 else ret5)
            in (ret6, d6))
         else (ret1, d1))"

text \<open>
  The \<open>for\<close> loop of \<open>dc_cal_module\<close> from the test of \<open>i\<close> on, with \<open>*converged\<close> true and
  \<open>status\<close> zero: a submodule that fails or does not converge ends the loop.
\<close>

function dc_cal_module_from ::
  "'d bus \<Rightarrow> bladerf_cal_module \<Rightarrow> dc_cal_state \<Rightarrow> nat \<Rightarrow> 'd \<Rightarrow> (error + bool) \<times> 'd"
where
  "dc_cal_module_from b module state i d =
     (if i < num_submodules state then
        andthen (dc_cal_submodule b module i state) (\<lambda>converged d'.
          if converged then dc_cal_module_from b module state (i + 1) d'
          else ret False d') d
      else ret True d)"
  by pat_completeness auto
termination
  by (relation "measure (\<lambda>(b, module, state, i, d). num_submodules state - i)") auto

declare dc_cal_module_from.simps [simp del]

definition dc_cal_module ::
  "'d bus \<Rightarrow> bladerf_cal_module \<Rightarrow> dc_cal_state \<Rightarrow> 'd \<Rightarrow> (error + bool) \<times> 'd"
where
  "dc_cal_module b module state = dc_cal_module_from b module state 0"

text \<open>
  The loop \<open>while (!converged && !limit_reached && status == 0)\<close> of \<open>lms_calibrate_dc\<close>,
  entered with \<open>converged\<close> and \<open>limit_reached\<close> false and \<open>status\<close> zero.  It returns the
  status and \<open>converged\<close>.  A further pass is made only after a retry adjustment that
  succeeded without reaching the limit, and such an adjustment has lowered one of the two
  current gains, which is why the loop ends.
\<close>

function dc_cal_converge ::
  "'d bus \<Rightarrow> libbladeRF_h \<Rightarrow> bladerf_cal_module \<Rightarrow> dc_cal_state \<Rightarrow> 'd \<Rightarrow> (error + bool) \<times> 'd"
where
  "dc_cal_converge b h module state d =
     andthen (dc_cal_module b module state) (\<lambda>converged d1.
       if converged then ret True d1
       else
         andthen (dc_cal_retry_adjustment b h module state False) (\<lambda>adj d2.
           if fst adj then ret False d2
           else dc_cal_converge b h module (snd adj) d2) d1) d"
  by pat_completeness auto
termination
proof (relation "measure (\<lambda>(b, h, module, state, d).
         nat (rxvga1_curr_gain state - BLADERF_RXVGA1_GAIN_MIN h) +
         nat (rxvga2_curr_gain state - BLADERF_RXVGA2_GAIN_MIN h))", goal_cases)
  case 1
  show ?case by simp
next
  case (2 b h module state d converged d1 adj d2)
  from 2(3,4) show ?case
    by (cases module)
      (auto simp add: dc_cal_retry_adjustment_def ret_def andthen_def Let_def
            split: if_splits prod.splits sum.splits)
qed

declare dc_cal_converge.simps [simp del]

text \<open>
  \<open>lms_calibrate_dc\<close>.  Deinit and restore are given the state of the backup: the fields
  they read are not changed by init or by a retry adjustment.
\<close>

definition lms_calibrate_dc ::
  "'d bus \<Rightarrow> libbladeRF_h \<Rightarrow> bladerf_cal_module \<Rightarrow> 'd \<Rightarrow> (error + unit) \<times> 'd"
where
  "lms_calibrate_dc b h module =
     andthen (dc_cal_backup b module) (\<lambda>state d1.
       let (status, d2) =
             andthen (dc_cal_module_init b h module state) (\<lambda>state1.
             andthen (dc_cal_converge b h module state1) (\<lambda>converged.
               if \<not> converged then fail BLADERF_ERR_UNEXPECTED else ret ())) d1;
           (tmp_status, d3) = dc_cal_module_deinit b module state d2;
           status' = (if status \<noteq> Inr () then status else tmp_status);
           (tmp_status', d4) = dc_cal_restore b h module state d3
       in ((if status' \<noteq> Inr () then status' else tmp_status'), d4))"

section \<open>Simulated devices\<close>

text \<open>
  An ideal register file: every transaction succeeds, a write is stored, and a read
  returns what was last written to the address.
\<close>

definition rf_bus :: "(u8 \<Rightarrow> u8) bus" where
  "rf_bus = \<lparr> LMS_READ = (\<lambda>addr r. (Inr (r addr), r)),
              LMS_WRITE = (\<lambda>addr v r. (Inr (), r(addr := v))) \<rparr>"

text \<open>
  A scripted device.  \<open>regs\<close> is a register file.  \<open>script addr\<close> is a queue of bytes that
  the next reads of \<open>addr\<close> return instead of the register (status bits that the chip
  drives).  \<open>fault = Some n\<close> lets \<open>n\<close> transactions pass and fails the next one with
  \<open>BLADERF_ERR_IO\<close>, once.
\<close>

record sim =
  regs :: "u8 \<Rightarrow> u8"
  script :: "u8 \<Rightarrow> u8 list"
  fault :: "nat option"

definition sim_read :: "u8 \<Rightarrow> sim \<Rightarrow> (error + u8) \<times> sim" where
  "sim_read addr s =
     (case fault s of
        Some 0 \<Rightarrow> (Inl BLADERF_ERR_IO, s\<lparr>fault := None\<rparr>)
      | _ \<Rightarrow>
          (let s1 = s\<lparr>fault := map_option (\<lambda>n. n - 1) (fault s)\<rparr>
           in case script s addr of
                [] \<Rightarrow> (Inr (regs s addr), s1)
              | v # vs \<Rightarrow> (Inr v, s1\<lparr>script := (script s)(addr := vs)\<rparr>)))"

definition sim_write :: "u8 \<Rightarrow> u8 \<Rightarrow> sim \<Rightarrow> (error + unit) \<times> sim" where
  "sim_write addr v s =
     (case fault s of
        Some 0 \<Rightarrow> (Inl BLADERF_ERR_IO, s\<lparr>fault := None\<rparr>)
      | _ \<Rightarrow>
          (Inr (), s\<lparr>fault := map_option (\<lambda>n. n - 1) (fault s),
                      regs := (regs s)(addr := v)\<rparr>))"

definition sim_bus :: "sim bus" where
  "sim_bus = \<lparr> LMS_READ = sim_read, LMS_WRITE = sim_write \<rparr>"

text \<open>Two devices for the concrete runs below.\<close>

definition ideal_sim :: sim where
  "ideal_sim = \<lparr> regs = (\<lambda>_. 0), script = (\<lambda>_. []), fault = None \<rparr>"




text \<open>
  A device whose RX LPF calibration reports done at once and reads \<open>DC_REGVAL\<close> 31 and then
  0 at each of 27 attempts.  The LNA gain field of its register \<open>0x75\<close> holds a valid gain,
  so that the backup of the gains succeeds.
\<close>

definition stubborn_sim :: sim where
  "stubborn_sim =
     \<lparr> regs = (\<lambda>_. 0)(0x75 := 0xc0),
       script = (\<lambda>_. [])(0x50 :=
         [31, 0, 31, 0, 31, 0, 31, 0, 31, 0, 31, 0, 31, 0, 31, 0, 31, 0,
          31, 0, 31, 0, 31, 0, 31, 0, 31, 0, 31, 0, 31, 0, 31, 0, 31, 0,
          31, 0, 31, 0, 31, 0, 31, 0, 31, 0, 31, 0, 31, 0, 31, 0, 31, 0]),
       fault = None \<rparr>"

text \<open>
  Three devices for the VCO-capacitor tuning of the TX PLL (base address \<open>0x10\<close>).  The first
  reads the tune status (bits 7 and 6 of register \<open>0x1a\<close>) high, low and normal in phase
  A, normal twice and then high in the downward scan, normal at the converged code, normal
  and then low in the upward scan, and normal at the midpoint; its register \<open>0x19\<close> holds
  \<open>0xc5\<close> at the start.  The second always reads the status high, and the third always reads
  the invalid status 3.
\<close>

definition vco_sim :: sim where
  "vco_sim =
     \<lparr> regs = (\<lambda>_. 0)(0x19 := 0xc5),
       script = (\<lambda>_. [])(0x1a := [0x80, 0x40, 0x00, 0x00, 0x00, 0x80, 0x00, 0x00, 0x40, 0x00]),
       fault = None \<rparr>"

definition high_sim :: sim where
  "high_sim = \<lparr> regs = (\<lambda>_. 0)(0x1a := 0x80), script = (\<lambda>_. []), fault = None \<rparr>"

definition invalid_sim :: sim where
  "invalid_sim = \<lparr> regs = (\<lambda>_. 0)(0x1a := 0xc0), script = (\<lambda>_. []), fault = None \<rparr>"
section \<open>Notions of the specification\<close>

text \<open>
  The definitions of this section are not taken from \<open>lms.c\<close>: they name what the
  specification speaks of, so that the properties below can be stated.
\<close>










subsection \<open>VCO-capacitor tuning as the specification describes it\<close>

text \<open>
  The definitions of this subsection follow the words of the specification, on trim codes
  that are natural numbers; \<open>tune_vcocap\<close> above is the function of the source, on bytes and
  \<open>int\<close>.  A probe programs a trim code, keeping the two upper bits \<open>data\<close> of the register
  \<open>base + 9\<close>, and reads the 2-bit tune status from the bits 7 and 6 of the register
  \<open>base + 10\<close>.
\<close>

definition vco_probe :: "'d bus \<Rightarrow> u8 \<Rightarrow> u8 \<Rightarrow> nat \<Rightarrow> 'd \<Rightarrow> (error + u8) \<times> 'd" where
  "vco_probe b base data code =
     andthen (LMS_WRITE b (base + 9) (of_nat code OR data)) (\<lambda>_.
     andthen (LMS_READ b (base + 10)) (\<lambda>v. ret (drop_bit 6 v)))"

text \<open>
  Phase A, with the number of iterations that are left: read the status at the code; stop
  if it is \<open>VCO_NORM\<close>; add the step if it is \<open>VCO_HIGH\<close>, subtract it if it is \<open>VCO_LOW\<close>; halve
  the step; fail with \<open>BLADERF_ERR_UNEXPECTED\<close> on any other status and when no iteration is
  left.
\<close>

fun spec_phase_a ::
  "'d bus \<Rightarrow> u8 \<Rightarrow> u8 \<Rightarrow> nat \<Rightarrow> nat \<Rightarrow> nat \<Rightarrow> 'd \<Rightarrow> (error + nat) \<times> 'd"
where
  "spec_phase_a b base data 0 code step d = (Inl BLADERF_ERR_UNEXPECTED, d)"
| "spec_phase_a b base data (Suc n) code step d =
     andthen (vco_probe b base data code) (\<lambda>status d'.
       if status = VCO_NORM then ret code d'
       else if status = VCO_HIGH then spec_phase_a b base data n (code + step) (step div 2) d'
       else if status = VCO_LOW then spec_phase_a b base data n (code - step) (step div 2) d'
       else fail BLADERF_ERR_UNEXPECTED d') d"

text \<open>
  Phase B: scan downward one code at a time while the status is not \<open>VCO_HIGH\<close>, and upward
  one code at a time while the status is not \<open>VCO_LOW\<close>.  Both return the last code that
  was probed and its status.
\<close>

function spec_scan_down ::
  "'d bus \<Rightarrow> u8 \<Rightarrow> u8 \<Rightarrow> nat \<Rightarrow> u8 \<Rightarrow> 'd \<Rightarrow> (error + nat \<times> u8) \<times> 'd"
where
  "spec_scan_down b base data code status d =
     (if code > 0 \<and> status \<noteq> VCO_HIGH then
        andthen (vco_probe b base data (code - 1)) (\<lambda>status' d'.
          spec_scan_down b base data (code - 1) status' d') d
      else ret (code, status) d)"
  by pat_completeness auto
termination
  by (relation "measure (\<lambda>(b, base, data, code, status, d). code)") auto

declare spec_scan_down.simps [simp del]

function spec_scan_up ::
  "'d bus \<Rightarrow> u8 \<Rightarrow> u8 \<Rightarrow> nat \<Rightarrow> u8 \<Rightarrow> 'd \<Rightarrow> (error + nat \<times> u8) \<times> 'd"
where
  "spec_scan_up b base data code status d =
     (if code < 64 \<and> status \<noteq> VCO_LOW then
        andthen (vco_probe b base data (code + 1)) (\<lambda>status' d'.
          spec_scan_up b base data (code + 1) status' d') d
      else ret (code, status) d)"
  by pat_completeness auto
termination
  by (relation "measure (\<lambda>(b, base, data, code, status, d). 64 - code)") auto

declare spec_scan_up.simps [simp del]

text \<open>
  The three phases.  The lower edge \<open>start\<close> is the code above the one at which the downward
  scan ended, the upper edge \<open>stop\<close> the code below the one at which the upward scan ended,
  and phase C programs \<open>(start + stop) div 2\<close> and requires the status \<open>VCO_NORM\<close> there.
\<close>

definition spec_tune_vcocap :: "'d bus \<Rightarrow> u8 \<Rightarrow> 'd \<Rightarrow> (error + unit) \<times> 'd" where
  "spec_tune_vcocap b base =
     andthen (LMS_READ b (base + 9)) (\<lambda>reg.
       let data = reg AND NOT 0x3f
       in andthen (spec_phase_a b base data 6 32 16) (\<lambda>code.
          andthen (spec_scan_down b base data code VCO_NORM) (\<lambda>(lo, _).
          andthen (vco_probe b base data code) (\<lambda>status.
          andthen (spec_scan_up b base data code status) (\<lambda>(hi, _).
            let start = lo + 1; stop = hi - 1
            in andthen (vco_probe b base data ((start + stop) div 2)) (\<lambda>status'.
                 if status' = VCO_NORM then ret () else fail BLADERF_ERR_UNEXPECTED))))))"
section \<open>Running the transport\<close>

lemma rf_bus_simps [simp]:
  "LMS_READ rf_bus addr r = (Inr (r addr), r)"
  "LMS_WRITE rf_bus addr v r = (Inr (), r(addr := v))"
  by (simp_all add: rf_bus_def)

lemma andthen_Inr [simp]: "m d = (Inr v, d') \<Longrightarrow> andthen m f d = f v d'"
  by (simp add: andthen_def)

lemma andthen_Inl [simp]: "m d = (Inl e, d') \<Longrightarrow> andthen m f d = (Inl e, d')"
  by (simp add: andthen_def)


lemmas lb_consts = LBEN_OPIN_def LBEN_VGA2IN_def LBEN_LPFIN_def LBEN_MASK_def LBRFEN_LNA1_def
  LBRFEN_LNA2_def LBRFEN_LNA3_def LBRFEN_MASK_def LOOPBBEN_TXLPF_def LOOPBBEN_TXVGA_def
  LOOPBBEN_ENVPK_def LOOBBBEN_MASK_def

section \<open>Evaluating the simulated devices\<close>

lemma sim_bus_simps [simp]:
  "LMS_READ sim_bus = sim_read" "LMS_WRITE sim_bus = sim_write"
  by (simp_all add: sim_bus_def)

lemmas sim_eval = sim_read_def sim_write_def Let_def ret_def fail_def lms_dc_cal_poll.simps

lemmas dc_cal_defs =
  lms_calibrate_dc_def dc_cal_backup_def dc_cal_module_init_def dc_cal_module_def
  dc_cal_submodule_def dc_cal_submodule_setup_def dc_cal_retry_adjustment_def
  dc_cal_module_deinit_def dc_cal_restore_def dc_cal_submodule_finish_def
  dc_cal_state_zero_def lms_dc_cal_loop_def dc_cal_module_from.simps dc_cal_converge.simps
  lms_set_def lms_clear_def

lemmas set_frequency_defs =
  lms_set_frequency_def lms_set_frequency_steps_def write_pll_config_def is_loopback_enabled_def
  lms_get_loopback_mode_def tune_vcocap_def tune_vcocap_search.simps tune_vcocap_scan_down.simps
  tune_vcocap_scan_up.simps pll_divider_regs_def VCO_NORM_def VCO_HIGH_def VCO_LOW_def
  loopback_decode_def lb_consts

lemma calc_1g:
  "lms_set_frequency_calc sample_h 1000000000
     = \<lparr>lms_x = 4, nint = 104, nfrac = 1398101, freqsel = 37, reference = 38400000\<rparr>"
  by (simp add: lms_set_frequency_calc_def sample_h_def bands_def vco_shift_def Let_def)

lemma clamp_1g: "clamp_frequency sample_h 1000000000 = 1000000000"
  by (simp add: clamp_frequency_def sample_h_def)

section \<open>Bandwidth selection\<close>

lemma lms_bw2uint_simps:
  "lms_bw2uint BW_28MHz = 28000000" "lms_bw2uint BW_20MHz = 20000000"
  "lms_bw2uint BW_14MHz = 14000000" "lms_bw2uint BW_12MHz = 12000000"
  "lms_bw2uint BW_10MHz = 10000000" "lms_bw2uint BW_8p75MHz = 8750000"
  "lms_bw2uint BW_7MHz = 7000000" "lms_bw2uint BW_6MHz = 6000000"
  "lms_bw2uint BW_5p5MHz = 5500000" "lms_bw2uint BW_5MHz = 5000000"
  "lms_bw2uint BW_3p84MHz = 3840000" "lms_bw2uint BW_3MHz = 3000000"
  "lms_bw2uint BW_2p75MHz = 2750000" "lms_bw2uint BW_2p5MHz = 2500000"
  "lms_bw2uint BW_1p75MHz = 1750000" "lms_bw2uint BW_1p5MHz = 1500000"
  by (simp_all add: lms_bw2uint_def uint_bandwidths_def kHz_def MHz_def)

lemma set_uint_bandwidths:
  "set uint_bandwidths =
     {28000000, 20000000, 14000000, 12000000, 10000000, 8750000, 7000000, 6000000,
      5500000, 5000000, 3840000, 3000000, 2750000, 2500000, 1750000, 1500000}"
  by (simp add: uint_bandwidths_def kHz_def MHz_def)

lemma lms_uint2bw_in_table: "lms_bw2uint (lms_uint2bw req) \<in> set uint_bandwidths"
  unfolding set_uint_bandwidths
  by (simp add: lms_uint2bw_def lms_bw2uint_simps kHz_def MHz_def)

lemma lms_uint2bw_covers:
  "req \<le> 28000000 \<Longrightarrow> req \<le> lms_bw2uint (lms_uint2bw req)"
  by (simp add: lms_uint2bw_def lms_bw2uint_simps kHz_def MHz_def)

lemma lms_uint2bw_least:
  "e \<in> set uint_bandwidths \<Longrightarrow> req \<le> e \<Longrightarrow> lms_bw2uint (lms_uint2bw req) \<le> e"
  unfolding set_uint_bandwidths
  by (auto simp add: lms_uint2bw_def lms_bw2uint_simps kHz_def MHz_def)

lemma lms_uint2bw_default:
  "\<not> (\<exists>e \<in> set uint_bandwidths. req \<le> e) \<Longrightarrow> lms_uint2bw req = BW_28MHz"
  unfolding set_uint_bandwidths
  by (simp add: lms_uint2bw_def kHz_def MHz_def)

text \<open>
  Claim C8.  For every requested bandwidth the entry selected by \<open>lms_uint2bw\<close> is the
  smallest of the sixteen entries of \<open>uint_bandwidths\<close> that is greater than or equal to the
  request; when the request exceeds every entry the widest one (28 MHz) is selected.  A
  request of 8,000,000 Hz selects the 8.75 MHz entry, one of 30,000,000 Hz the 28 MHz entry.
\<close>

theorem lms_uint2bw_smallest_entry:
  "length uint_bandwidths = 16 \<and>
   lms_bw2uint (lms_uint2bw req) =
     (if \<exists>e \<in> set uint_bandwidths. req \<le> e
      then Min {e \<in> set uint_bandwidths. req \<le> e}
      else 28000000) \<and>
   (\<not> (\<exists>e \<in> set uint_bandwidths. req \<le> e) \<longrightarrow> lms_uint2bw req = BW_28MHz) \<and>
   lms_uint2bw 8000000 = BW_8p75MHz \<and> lms_bw2uint BW_8p75MHz = 8750000 \<and>
   lms_uint2bw 30000000 = BW_28MHz \<and> lms_bw2uint BW_28MHz = 28000000"
proof -
  have len: "length uint_bandwidths = 16"
    by (simp add: uint_bandwidths_def)
  have sel: "lms_bw2uint (lms_uint2bw req) =
     (if \<exists>e \<in> set uint_bandwidths. req \<le> e
      then Min {e \<in> set uint_bandwidths. req \<le> e}
      else 28000000)"
  proof (cases "\<exists>e \<in> set uint_bandwidths. req \<le> e")
    case True
    then have le: "req \<le> 28000000"
      unfolding set_uint_bandwidths by auto
    have "Min {e \<in> set uint_bandwidths. req \<le> e} = lms_bw2uint (lms_uint2bw req)"
    proof (rule Min_eqI)
      show "finite {e \<in> set uint_bandwidths. req \<le> e}" by simp
      show "\<And>y. y \<in> {e \<in> set uint_bandwidths. req \<le> e} \<Longrightarrow> lms_bw2uint (lms_uint2bw req) \<le> y"
        using lms_uint2bw_least by simp
      show "lms_bw2uint (lms_uint2bw req) \<in> {e \<in> set uint_bandwidths. req \<le> e}"
        using lms_uint2bw_in_table lms_uint2bw_covers [OF le] by simp
    qed
    with True show ?thesis by simp
  next
    case False
    then show ?thesis
      using lms_uint2bw_default [OF False] by (simp add: lms_bw2uint_simps)
  qed
  have ex: "lms_uint2bw 8000000 = BW_8p75MHz" "lms_uint2bw 30000000 = BW_28MHz"
    by (simp_all add: lms_uint2bw_def kHz_def MHz_def)
  show ?thesis
    using len sel ex lms_uint2bw_default [of req] by (simp add: lms_bw2uint_simps)
qed

theorem lms_uint2bw_smallest_entry_witness:
  "(\<exists>e \<in> set uint_bandwidths. (9000000::nat) \<le> e) \<and>
   lms_bw2uint (lms_uint2bw 9000000) = Min {e \<in> set uint_bandwidths. 9000000 \<le> e} \<and>
   lms_bw2uint (lms_uint2bw 9000000) = 10000000 \<and>
   \<not> (\<exists>e \<in> set uint_bandwidths. (30000000::nat) \<le> e) \<and>
   lms_bw2uint (lms_uint2bw 30000000) = 28000000"
proof -
  have a: "\<exists>e \<in> set uint_bandwidths. (9000000::nat) \<le> e"
    unfolding set_uint_bandwidths by simp
  have b: "\<not> (\<exists>e \<in> set uint_bandwidths. (30000000::nat) \<le> e)"
    unfolding set_uint_bandwidths by simp
  have c: "lms_bw2uint (lms_uint2bw 9000000) = 10000000"
    by (simp add: lms_uint2bw_def lms_bw2uint_simps kHz_def MHz_def)
  show ?thesis
    using a b c lms_uint2bw_smallest_entry [of 9000000] lms_uint2bw_smallest_entry [of 30000000]
    by simp
qed

section \<open>Decoding the low-pass filter mode\<close>

lemma and_push_bit_1_iff: "(y AND push_bit n 1 \<noteq> 0) = bit (y::u8) n"
  by (simp add: bit_iff_and_push_bit_not_eq_0)

text \<open>
  Claim C2, as the code has it.  For either module, when both reads of \<open>lms_lpf_get_mode\<close>
  succeed: if the bytes read say "LPF enabled and LPF bypassed" (bit 1 of the first, bit 6
  of the second) the result is the error \<open>BLADERF_ERR_INVAL\<close>; for the three other
  combinations it is the mode Normal, Bypassed or Disabled, with no error.
\<close>

theorem lms_lpf_get_mode_decodes:
  assumes "LMS_READ b (lpf_reg m) d = (Inr data_l, d1)"
    and "LMS_READ b (lpf_reg m + 1) d1 = (Inr data_h, d2)"
  shows "lms_lpf_get_mode b m d =
     ((if bit data_l 1 \<and> bit data_h 6 then Inl BLADERF_ERR_INVAL
       else if bit data_l 1 then Inr BLADERF_LPF_NORMAL
       else if bit data_h 6 then Inr BLADERF_LPF_BYPASSED
       else Inr BLADERF_LPF_DISABLED), d2)"
  using assms
  by (simp add: lms_lpf_get_mode_def Let_def ret_def fail_def
        and_push_bit_1_iff [of _ 1, simplified] and_push_bit_1_iff [of _ 6, simplified])

theorem lms_lpf_get_mode_decodes_witness:
  "bit (0x02 :: u8) 1 \<and> bit (0x40 :: u8) 6 \<and>
   lms_lpf_get_mode rf_bus BLADERF_MODULE_TX ((\<lambda>_. 0)(0x34 := 0x02, 0x35 := 0x40))
     = (Inl BLADERF_ERR_INVAL, (\<lambda>_. 0)(0x34 := 0x02, 0x35 := 0x40)) \<and>
   lms_lpf_get_mode rf_bus BLADERF_MODULE_RX ((\<lambda>_. 0)(0x54 := 0x02))
     = (Inr BLADERF_LPF_NORMAL, (\<lambda>_. 0)(0x54 := 0x02))"
  using lms_lpf_get_mode_decodes [where b = rf_bus and m = BLADERF_MODULE_TX
      and d = "(\<lambda>_. 0)(0x34 := 0x02, 0x35 := 0x40)" and data_l = "0x02" and data_h = "0x40"]
    lms_lpf_get_mode_decodes [where b = rf_bus and m = BLADERF_MODULE_RX
      and d = "(\<lambda>_. 0)(0x54 := 0x02)" and data_l = "0x02" and data_h = "0"]
  by (simp add: lpf_reg_def)

text \<open>
  The claim as stated asks for \<open>BLADERF_ERR_UNEXPECTED\<close>.  On a register file whose RX LPF
  registers read "enabled and bypassed", both reads succeed and the result is another error.
\<close>

theorem lms_lpf_get_mode_not_unexpected:
  "LMS_READ rf_bus (lpf_reg BLADERF_MODULE_RX) ((\<lambda>_. 0)(0x54 := 0x02, 0x55 := 0x40))
     = (Inr 0x02, (\<lambda>_. 0)(0x54 := 0x02, 0x55 := 0x40)) \<and>
   LMS_READ rf_bus (lpf_reg BLADERF_MODULE_RX + 1) ((\<lambda>_. 0)(0x54 := 0x02, 0x55 := 0x40))
     = (Inr 0x40, (\<lambda>_. 0)(0x54 := 0x02, 0x55 := 0x40)) \<and>
   0x02 AND push_bit 1 (1 :: u8) \<noteq> 0 \<and> 0x40 AND push_bit 6 (1 :: u8) \<noteq> 0 \<and>
   fst (lms_lpf_get_mode rf_bus BLADERF_MODULE_RX ((\<lambda>_. 0)(0x54 := 0x02, 0x55 := 0x40)))
     \<noteq> Inl BLADERF_ERR_UNEXPECTED"
  by (simp add: lms_lpf_get_mode_def lpf_reg_def Let_def ret_def fail_def)

section \<open>Gain clamping\<close>


lemma txvga2_field:
  "(word_of_int (push_bit 3 (sint (w :: 8 word) AND 0x1f)) :: 8 word) = push_bit 3 (w AND 0x1f)"
proof -
  have m: "(0x1f :: int) = mask 5" "(0x1f :: 8 word) = mask 5"
    by (simp_all add: mask_eq_exp_minus_1)
  show ?thesis
    unfolding m
    by (rule bit_word_eqI) (auto simp add: bit_simps)
qed

lemma txvga2_field_of_int:
  "(word_of_int (push_bit 3 (sint (word_of_int c :: 8 word) AND 0x1f)) :: 8 word)
     = push_bit 3 (word_of_int c AND 0x1f)"
  by (rule txvga2_field)









section \<open>Packing and unpacking the PLL divider\<close>








section \<open>Loopback round trip\<close>












section \<open>Frequency round trip\<close>

text \<open>
  The arithmetic of the round trip on natural numbers: with \<open>N = x * f\<close>, the integer part
  \<open>q\<close>, the rounded fraction \<open>nf\<close> and the rounded quotient \<open>hz\<close> that
  \<open>lms_frequency_to_hz\<close> computes, \<open>hz\<close> is within 1 of \<open>f\<close> as soon as \<open>x\<close> is at least 2.
\<close>

lemma pll_roundtrip_nat:
  fixes f x :: nat
  assumes x: "2 \<le> x"
  defines "N \<equiv> x * f"
  defines "q \<equiv> N div 38400000"
  defines "nf \<equiv> (8388608 * (N - q * 38400000) + 19200000) div 38400000"
  defines "hz \<equiv> (38400000 * (q * 8388608 + nf) + (x * 8388608) div 2) div (x * 8388608)"
  shows "f \<le> hz + 1 \<and> hz \<le> f + 1"
proof -
  define r where "r = N - q * 38400000"
  have c: "N = q * 38400000 + r"
  proof -
    have "q * 38400000 \<le> N" unfolding q_def by (rule div_times_less_eq_dividend)
    then show ?thesis unfolding r_def by simp
  qed
  have a: "nf * 38400000 \<le> 8388608 * r + 19200000"
    unfolding nf_def r_def by (rule div_times_less_eq_dividend)
  have b: "8388608 * r + 19200000 < nf * 38400000 + 38400000"
    unfolding nf_def r_def using dividend_less_div_times [of 38400000 "8388608 * (N - q * 38400000) + 19200000"]
    by simp
  have h: "(x * 8388608) div 2 = x * 4194304" by simp
  have up: "hz < f + 2"
  proof -
    have e: "(f + 2) * (x * 8388608) = 8388608 * N + x * 16777216"
      by (simp add: N_def algebra_simps)
    have "38400000 * (q * 8388608 + nf) + x * 4194304 < 8388608 * N + x * 16777216"
      unfolding c using a b x by (simp add: algebra_simps)
    then have "38400000 * (q * 8388608 + nf) + x * 4194304 < (f + 2) * (x * 8388608)"
      unfolding e .
    moreover have "0 < x * 8388608" using x by simp
    ultimately show ?thesis
      unfolding hz_def h by (simp add: div_less_iff_less_mult)
  qed
  have lo: "f - 1 \<le> hz"
  proof -
    have e: "(f - 1) * (x * 8388608) = 8388608 * N - x * 8388608"
      by (simp add: N_def algebra_simps diff_mult_distrib)
    have "8388608 * N - x * 8388608 \<le> 38400000 * (q * 8388608 + nf) + x * 4194304"
      unfolding c using a b x by (simp add: algebra_simps)
    then have "(f - 1) * (x * 8388608) \<le> 38400000 * (q * 8388608 + nf) + x * 4194304"
      unfolding e .
    moreover have "0 < x * 8388608" using x by simp
    ultimately show ?thesis
      unfolding hz_def h by (simp add: less_eq_div_iff_mult_less_eq)
  qed
  from up lo show ?thesis by linarith
qed

text \<open>The 64-bit computations of \<open>lms_set_frequency\<close> do not wrap around.\<close>

lemma band_search_in_table:
  "band_search rs f dflt = dflt \<or> band_search rs f dflt \<in> value ` set rs"
  by (induction rs) auto

lemma bands_vco_shift:
  "r \<in> set (bands h) \<Longrightarrow> vco_shift (value r) \<in> {1, 2, 3, 4}"
  by (auto simp add: bands_def vco_shift_def)

lemma freqsel_vco_shift:
  "vco_shift (band_search (bands h) f (value (hd (bands h)))) \<in> {1, 2, 3, 4}"
proof -
  have "hd (bands h) \<in> set (bands h)" by (simp add: bands_def)
  then obtain r where "r \<in> set (bands h)"
    and "band_search (bands h) f (value (hd (bands h))) = value r"
    using band_search_in_table [of "bands h" f "value (hd (bands h))"] by blast
  then show ?thesis
    using bands_vco_shift [of r h] by simp
qed

lemma unat_vco_x:
  assumes "s \<in> {1, 2, 3, 4 :: nat}"
  shows "unat (push_bit s 1 :: 64 word) = 2 ^ s"
proof -
  from assms consider "s = 1" | "s = 2" | "s = 3" | "s = 4" by auto
  then show ?thesis by cases simp_all
qed


lemma unat_ucast_small:
  fixes w :: "'a::len word"
  assumes "unat w < 2 ^ LENGTH('b::len)"
  shows "unat (ucast w :: 'b word) = unat w"
  using assms by (simp add: unsigned_ucast_eq take_bit_nat_eq_self)

lemma calc_nat:
  fixes f :: "32 word" and X :: "64 word"
  assumes X: "unat X \<le> 16"
  defines "temp \<equiv> (X * ucast f) div 38400000"
  defines "nint' \<equiv> (ucast temp :: 16 word)"
  defines "temp1 \<equiv> push_bit 23 1 * (X * ucast f - ucast nint' * 38400000)"
  defines "temp2 \<equiv> (temp1 + 38400000 div 2) div 38400000"
  defines "nfrac' \<equiv> (ucast temp2 :: 32 word)"
  shows "unat nint' = (unat X * unat f) div 38400000"
    and "unat nfrac' =
           (8388608 * (unat X * unat f - unat nint' * 38400000) + 19200000) div 38400000"
    and "unat nint' \<le> 1789" and "unat nfrac' \<le> 8388608"
proof -
  have f32: "unat f < 4294967296" using unsigned_less [of f] by simp
  have ucf: "unat (ucast f :: 64 word) = unat f"
    using f32 by (intro unat_ucast_small) simp
  have le: "unat X * unat f \<le> 16 * 4294967296"
    using X f32 by (intro mult_le_mono) simp_all
  have xf: "unat (X * ucast f) = unat X * unat f"
  proof -
    have "unat X * unat (ucast f :: 64 word) < 2 ^ LENGTH(64)"
      using le by (simp add: ucf)
    then show ?thesis
      by (simp add: unat_mult_lem [THEN iffD1] ucf)
  qed
  have t: "unat temp = (unat X * unat f) div 38400000"
    unfolding temp_def by (simp add: unat_div xf)
  have tb: "unat temp \<le> 1789"
  proof -
    have "(unat X * unat f) div 38400000 \<le> (16 * 4294967296) div 38400000"
      using le by (rule div_le_mono)
    then show ?thesis unfolding t by simp
  qed
  show n: "unat nint' = (unat X * unat f) div 38400000"
    unfolding nint'_def using tb t by (simp add: unat_ucast_small)
  show nb: "unat nint' \<le> 1789" using n t tb by simp
  have ucn: "unat (ucast nint' :: 64 word) = unat nint'"
    using nb by (intro unat_ucast_small) simp
  have nr: "unat (ucast nint' * 38400000 :: 64 word) = unat nint' * 38400000"
  proof -
    have "unat nint' * 38400000 \<le> 1789 * 38400000" using nb by simp
    then have "unat (ucast nint' :: 64 word) * unat (38400000 :: 64 word) < 2 ^ LENGTH(64)"
      by (simp add: ucn)
    then show ?thesis
      by (simp add: unat_mult_lem [THEN iffD1] ucn)
  qed
  have nle: "unat nint' * 38400000 \<le> unat X * unat f"
    unfolding n by (rule div_times_less_eq_dividend)
  have r: "unat (X * ucast f - ucast nint' * 38400000) = unat X * unat f - unat nint' * 38400000"
  proof -
    have "ucast nint' * 38400000 \<le> X * ucast f"
      using nle by (simp add: word_le_nat_alt nr xf)
    then show ?thesis by (simp add: unat_sub nr xf)
  qed
  have rb: "unat X * unat f - unat nint' * 38400000 < 38400000"
  proof -
    have "unat X * unat f - unat nint' * 38400000 = (unat X * unat f) mod 38400000"
      unfolding n by (simp add: minus_div_mult_eq_mod)
    then show ?thesis by simp
  qed
  have t1: "unat temp1 = 8388608 * (unat X * unat f - unat nint' * 38400000)"
  proof -
    define W where "W = X * ucast f - ucast nint' * 38400000"
    have w: "unat W = unat X * unat f - unat nint' * 38400000"
      unfolding W_def by (rule r)
    have p: "unat (push_bit 23 1 :: 64 word) = 8388608" by simp
    have "unat (push_bit 23 1 :: 64 word) * unat W < 2 ^ LENGTH(64)"
      unfolding p w using rb by simp
    then have "unat (push_bit 23 1 * W) = unat (push_bit 23 1 :: 64 word) * unat W"
      by (rule unat_mult_lem [THEN iffD1])
    then show ?thesis
      unfolding temp1_def W_def [symmetric] p w .
  qed
  have t2: "unat temp2 = (8388608 * (unat X * unat f - unat nint' * 38400000) + 19200000) div 38400000"
  proof -
    have "unat temp1 + unat (19200000 :: 64 word) < 2 ^ LENGTH(64)"
      using rb by (simp add: t1)
    then have "unat (temp1 + 19200000) = unat temp1 + 19200000"
      by (simp add: unat_add_lem [THEN iffD1])
    then show ?thesis
      unfolding temp2_def by (simp add: unat_div t1)
  qed
  have t2b: "unat temp2 \<le> 8388608"
  proof -
    have "(8388608 * (unat X * unat f - unat nint' * 38400000) + 19200000) div 38400000
            \<le> (8388608 * 38400000 + 19200000) div 38400000"
      using rb by (intro div_le_mono) simp
    then show ?thesis unfolding t2 by simp
  qed
  show "unat nfrac' =
           (8388608 * (unat X * unat f - unat nint' * 38400000) + 19200000) div 38400000"
    unfolding nfrac'_def using t2b t2 by (simp add: unat_ucast_small)
  then show "unat nfrac' \<le> 8388608" using t2 t2b by simp
qed


lemma unat_mult_small:
  fixes a c :: "'a::len word"
  assumes "unat a * unat c < 2 ^ LENGTH('a)"
  shows "unat (a * c) = unat a * unat c"
  using assms by (rule unat_mult_lem [THEN iffD1])

lemma unat_add_small:
  fixes a c :: "'a::len word"
  assumes "unat a + unat c < 2 ^ LENGTH('a)"
  shows "unat (a + c) = unat a + unat c"
  using assms by (rule unat_add_lem [THEN iffD1])

lemma to_hz_nat:
  assumes x: "unat (lms_x d) \<le> 16"
    and n: "unat (nint d) \<le> 1789"
    and fr: "unat (nfrac d) \<le> 8388608"
    and ref: "reference d = 38400000"
    and small: "(38400000 * (unat (nint d) * 8388608 + unat (nfrac d))
                  + (unat (lms_x d) * 8388608) div 2) div (unat (lms_x d) * 8388608) < 4294967296"
  shows "unat (lms_frequency_to_hz d) =
           (38400000 * (unat (nint d) * 8388608 + unat (nfrac d))
              + (unat (lms_x d) * 8388608) div 2) div (unat (lms_x d) * 8388608)"
proof -
  define pll :: "64 word" where "pll = push_bit 23 (ucast (nint d)) + ucast (nfrac d)"
  define dv :: "32 word" where "dv = push_bit 23 (ucast (lms_x d))"
  have ucn: "unat (ucast (nint d) :: 64 word) = unat (nint d)"
    using n by (intro unat_ucast_small) simp
  have ucf: "unat (ucast (nfrac d) :: 64 word) = unat (nfrac d)"
    using fr by (intro unat_ucast_small) simp
  have ucx: "unat (ucast (lms_x d) :: 32 word) = unat (lms_x d)"
    using x by (intro unat_ucast_small) simp
  have pn: "unat (push_bit 23 (ucast (nint d)) :: 64 word) = unat (nint d) * 8388608"
  proof -
    have "unat (ucast (nint d) :: 64 word) * unat (8388608 :: 64 word) < 2 ^ LENGTH(64)"
      using n by (simp add: ucn)
    then have "unat (ucast (nint d) * 8388608 :: 64 word) = unat (nint d) * 8388608"
      by (simp add: unat_mult_small ucn)
    then show ?thesis by (simp add: push_bit_eq_mult)
  qed
  have p: "unat pll = unat (nint d) * 8388608 + unat (nfrac d)"
  proof -
    have "unat (push_bit 23 (ucast (nint d)) :: 64 word) + unat (ucast (nfrac d) :: 64 word)
            < 2 ^ LENGTH(64)"
      using n fr by (simp add: pn ucf)
    then show ?thesis
      unfolding pll_def by (simp add: unat_add_small pn ucf)
  qed
  have dvn: "unat dv = unat (lms_x d) * 8388608"
  proof -
    have "unat (ucast (lms_x d) :: 32 word) * unat (8388608 :: 32 word) < 2 ^ LENGTH(32)"
      using x by (simp add: ucx)
    then have "unat (ucast (lms_x d) * 8388608 :: 32 word) = unat (lms_x d) * 8388608"
      by (simp add: unat_mult_small ucx)
    then show ?thesis unfolding dv_def by (simp add: push_bit_eq_mult)
  qed
  have dvb: "unat dv \<le> 16 * 8388608" using x by (simp add: dvn)
  have ucd: "unat (ucast dv :: 64 word) = unat dv"
    using dvb by (intro unat_ucast_small) simp
  have hd: "unat (ucast (drop_bit 1 dv) :: 64 word) = unat dv div 2"
  proof -
    have e: "unat (drop_bit 1 dv) = unat dv div 2"
      by (simp add: drop_bit_eq_div unat_div)
    have "unat (drop_bit 1 dv) < 2 ^ LENGTH(64)"
      using dvb unfolding e by simp
    then show ?thesis using e by (simp add: unat_ucast_small)
  qed
  have rp: "unat (ucast (reference d) * pll :: 64 word) = 38400000 * unat pll"
  proof -
    have r: "unat (ucast (reference d) :: 64 word) = 38400000"
      by (simp add: ref)
    have "38400000 * unat pll \<le> 38400000 * (1789 * 8388608 + 8388608)"
      using n fr unfolding p by simp
    then have "unat (ucast (reference d) :: 64 word) * unat pll < 2 ^ LENGTH(64)"
      unfolding r by simp
    then show ?thesis
      using r by (simp add: unat_mult_small)
  qed
  have num: "unat (ucast (reference d) * pll + ucast (drop_bit 1 dv) :: 64 word)
               = 38400000 * unat pll + unat dv div 2"
  proof -
    have "38400000 * unat pll \<le> 38400000 * (1789 * 8388608 + 8388608)"
      using n fr unfolding p by simp
    then have "unat (ucast (reference d) * pll :: 64 word) + unat (ucast (drop_bit 1 dv) :: 64 word)
            < 2 ^ LENGTH(64)"
      using dvb unfolding rp hd by simp
    from unat_add_small [OF this] show ?thesis
      unfolding rp hd .
  qed
  have q: "unat ((ucast (reference d) * pll + ucast (drop_bit 1 dv)) div ucast dv :: 64 word)
             = (38400000 * unat pll + unat dv div 2) div unat dv"
    by (simp only: unat_div num ucd)
  have "lms_frequency_to_hz d
          = ucast ((ucast (reference d) * pll + ucast (drop_bit 1 dv)) div ucast dv :: 64 word)"
    by (simp add: lms_frequency_to_hz_def Let_def pll_def dv_def)
  moreover have "unat ((ucast (reference d) * pll + ucast (drop_bit 1 dv)) div ucast dv :: 64 word)
                   < 2 ^ LENGTH(32)"
    using small unfolding q p dvn by simp
  ultimately show ?thesis
    by (simp only: unat_ucast_small q p dvn)
qed


lemma band_search_find:
  "band_search rs f dflt =
     (case find (\<lambda>r. low r \<le> f \<and> f \<le> high r) rs of None \<Rightarrow> dflt | Some r \<Rightarrow> value r)"
  by (induction rs) auto

lemma bands_cover:
  assumes "BLADERF_FREQUENCY_MIN h \<le> f" and "f \<le> BLADERF_FREQUENCY_MAX h"
  shows "\<exists>r \<in> set (bands h). low r \<le> f \<and> f \<le> high r"
  using assms
    linear [of f 285625000] linear [of f 336875000] linear [of f 405000000]
    linear [of f 465000000] linear [of f 571250000] linear [of f 673750000]
    linear [of f 810000000] linear [of f 930000000] linear [of f 1142500000]
    linear [of f 1347500000] linear [of f 1620000000] linear [of f 1860000000]
    linear [of f 2285000000] linear [of f 2695000000] linear [of f 3240000000]
  unfolding bands_def by simp blast

lemma clamp_frequency_in_range:
  "BLADERF_FREQUENCY_MIN h \<le> f \<Longrightarrow> f \<le> BLADERF_FREQUENCY_MAX h \<Longrightarrow> clamp_frequency h f = f"
  by (auto simp add: clamp_frequency_def)

text \<open>
  Claim C3.  For every frequency \<open>freq\<close> of the supported range (the header's minimum and
  maximum, the maximum being at most the 3.8 GHz that the comment on \<open>bands\<close> gives), the
  structure \<open>f\<close> that \<open>lms_set_frequency\<close> computes has: \<open>freqsel\<close> the value of the first
  entry of \<open>bands\<close>, in ascending order, that contains \<open>freq\<close>;
  \<open>x = 2^((freqsel & 7) - 3)\<close>; \<open>nint = floor (x * freq / reference)\<close>; \<open>nfrac\<close> the quotient
  \<open>2^23 * (x * freq - nint * reference) / reference\<close> rounded to nearest by adding half the
  reference; and \<open>lms_frequency_to_hz f\<close> differs from \<open>freq\<close> by at most
  \<open>x * reference / 2^23\<close> (stated with the division multiplied out).
\<close>

theorem frequency_roundtrip:
  assumes lo: "BLADERF_FREQUENCY_MIN h \<le> freq"
    and hi: "freq \<le> BLADERF_FREQUENCY_MAX h"
    and max: "BLADERF_FREQUENCY_MAX h \<le> 3800000000"
  defines "f \<equiv> lms_set_frequency_calc h (clamp_frequency h freq)"
  defines "x' \<equiv> unat (lms_x f)"
  shows "(\<exists>r. find (\<lambda>r. low r \<le> freq \<and> freq \<le> high r) (bands h) = Some r \<and> freqsel f = value r) \<and>
         x' = 2 ^ (unat (freqsel f AND 7) - 3) \<and>
         reference f = 38400000 \<and>
         unat (nint f) = (x' * unat freq) div 38400000 \<and>
         unat (nfrac f) =
           (2 ^ 23 * (x' * unat freq - unat (nint f) * 38400000) + 38400000 div 2) div 38400000 \<and>
         \<bar>int (unat (lms_frequency_to_hz f)) - int (unat freq)\<bar> * 2 ^ 23 \<le> int x' * 38400000"
proof -
  define fsel where "fsel = band_search (bands h) freq (value (hd (bands h)))"
  define X :: "64 word" where "X = push_bit (vco_shift fsel) 1"
  have cl: "clamp_frequency h freq = freq"
    using lo hi by (rule clamp_frequency_in_range)
  have s: "vco_shift fsel \<in> {1, 2, 3, 4}"
    unfolding fsel_def by (rule freqsel_vco_shift)
  have uX: "unat X = 2 ^ vco_shift fsel"
    unfolding X_def using s by (rule unat_vco_x)
  from s consider "vco_shift fsel = 1" | "vco_shift fsel = 2" | "vco_shift fsel = 3"
    | "vco_shift fsel = 4" by auto
  then have "2 \<le> unat X \<and> unat X \<le> 16"
    unfolding uX by cases simp_all
  then have xr: "2 \<le> unat X" "unat X \<le> 16"
    by simp_all
  have fs: "freqsel f = fsel"
    unfolding f_def cl fsel_def by (simp add: lms_set_frequency_calc_def Let_def)
  have fx: "lms_x f = ucast X"
    unfolding f_def cl fsel_def X_def by (simp add: lms_set_frequency_calc_def Let_def)
  have x'X: "x' = unat X"
    unfolding x'_def fx using xr by (intro unat_ucast_small) simp
  have fr: "reference f = 38400000"
    unfolding f_def by (simp add: lms_set_frequency_calc_def Let_def)
  have fn: "nint f = ucast ((X * ucast freq) div 38400000)"
    unfolding f_def cl fsel_def X_def by (simp add: lms_set_frequency_calc_def Let_def)
  have ff: "nfrac f = ucast ((push_bit 23 1 * (X * ucast freq - ucast (nint f) * 38400000)
                               + 38400000 div 2) div 38400000)"
    unfolding fn unfolding f_def cl fsel_def X_def
    by (simp add: lms_set_frequency_calc_def Let_def)
  note c = calc_nat [OF xr(2), of freq, folded fn, folded ff]
  have 1: "\<exists>r. find (\<lambda>r. low r \<le> freq \<and> freq \<le> high r) (bands h) = Some r \<and> freqsel f = value r"
  proof -
    from bands_cover [OF lo hi]
    have "find (\<lambda>r. low r \<le> freq \<and> freq \<le> high r) (bands h) \<noteq> None"
      by (auto simp add: find_None_iff)
    then obtain r where r: "find (\<lambda>r. low r \<le> freq \<and> freq \<le> high r) (bands h) = Some r"
      by blast
    then have "fsel = value r"
      unfolding fsel_def band_search_find by simp
    with r fs show ?thesis by simp
  qed
  have 2: "x' = 2 ^ (unat (freqsel f AND 7) - 3)"
    unfolding x'X uX fs by (simp add: vco_shift_def)
  have 4: "unat (nint f) = (x' * unat freq) div 38400000"
    unfolding x'X by (rule c(1))
  have 5: "unat (nfrac f) =
           (2 ^ 23 * (x' * unat freq - unat (nint f) * 38400000) + 38400000 div 2) div 38400000"
    unfolding x'X using c(2) by simp
  have rt: "unat freq \<le> unat (lms_frequency_to_hz f) + 1 \<and>
            unat (lms_frequency_to_hz f) \<le> unat freq + 1"
  proof -
    define hz where "hz = (38400000 * (unat (nint f) * 8388608 + unat (nfrac f))
              + (unat (lms_x f) * 8388608) div 2) div (unat (lms_x f) * 8388608)"
    have b: "unat freq \<le> hz + 1 \<and> hz \<le> unat freq + 1"
      using pll_roundtrip_nat [OF xr(1), of "unat freq"]
      unfolding hz_def c(2) c(1) x'_def [symmetric] x'X by simp
    have "unat freq \<le> 3800000000"
      using hi max by (simp add: word_le_nat_alt)
    with b have "hz < 4294967296" by simp
    then have "unat (lms_frequency_to_hz f) = hz"
      unfolding hz_def
      using to_hz_nat [of f] xr(2) c(3) c(4) fr unfolding x'_def [symmetric] x'X by simp
    with b show ?thesis by simp
  qed
  have 6: "\<bar>int (unat (lms_frequency_to_hz f)) - int (unat freq)\<bar> * 2 ^ 23 \<le> int x' * 38400000"
  proof -
    from rt have "\<bar>int (unat (lms_frequency_to_hz f)) - int (unat freq)\<bar> \<le> 1" by linarith
    then have "\<bar>int (unat (lms_frequency_to_hz f)) - int (unat freq)\<bar> * 2 ^ 23 \<le> 1 * 2 ^ 23"
      by (rule mult_right_mono) simp
    also have "(1::int) * 2 ^ 23 \<le> int x' * 38400000"
    proof -
      have "2 \<le> x'" using xr(1) unfolding x'X .
      then have "2 \<le> int x'" by linarith
      then show ?thesis by simp
    qed
    finally show ?thesis .
  qed
  from 1 2 fr 4 5 6 show ?thesis by blast
qed

lemma calc_sample:
  "lms_set_frequency_calc sample_h 1919999999
     = \<lparr>lms_x = 2, nint = 99, nfrac = 8388608, freqsel = 0x24, reference = 38400000\<rparr>"
  by (simp add: lms_set_frequency_calc_def sample_h_def bands_def vco_shift_def Let_def)

lemma hz_sample:
  "lms_frequency_to_hz \<lparr>lms_x = 2, nint = 99, nfrac = 8388608, freqsel = 0x24, reference = 38400000\<rparr>
     = 1920000000"
  by (simp add: lms_frequency_to_hz_def Let_def)

theorem frequency_roundtrip_witness:
  "BLADERF_FREQUENCY_MIN sample_h \<le> 1919999999 \<and>
   1919999999 \<le> BLADERF_FREQUENCY_MAX sample_h \<and>
   BLADERF_FREQUENCY_MAX sample_h \<le> 3800000000 \<and>
   lms_set_frequency_calc sample_h (clamp_frequency sample_h 1919999999)
     = \<lparr>lms_x = 2, nint = 99, nfrac = 8388608, freqsel = 0x24, reference = 38400000\<rparr> \<and>
   lms_frequency_to_hz (lms_set_frequency_calc sample_h (clamp_frequency sample_h 1919999999))
     = 1920000000 \<and>
   \<bar>int (unat (lms_frequency_to_hz
                  (lms_set_frequency_calc sample_h (clamp_frequency sample_h 1919999999))))
      - int (unat (1919999999 :: 32 word))\<bar> * 2 ^ 23
     \<le> int (unat (lms_x (lms_set_frequency_calc sample_h (clamp_frequency sample_h 1919999999))))
         * 38400000"
proof -
  have r: "BLADERF_FREQUENCY_MIN sample_h \<le> 1919999999"
    "1919999999 \<le> BLADERF_FREQUENCY_MAX sample_h"
    "BLADERF_FREQUENCY_MAX sample_h \<le> 3800000000"
    by (simp_all add: sample_h_def)
  have c: "clamp_frequency sample_h 1919999999 = 1919999999"
    by (simp add: clamp_frequency_def sample_h_def)
  show ?thesis
    using r frequency_roundtrip [OF r]
    by (simp only: c calc_sample hz_sample) simp
qed

section \<open>The retry of a DC calibration submodule\<close>




section \<open>Turning the delta-sigma modulators off\<close>



text \<open>
  A run of \<open>lms_set_frequency\<close> for 1 GHz on a register file whose tune status always reads
  Normal: it succeeds, and the DSM bits of register \<open>0x09\<close> are clear at the end.
\<close>

theorem lms_set_frequency_success_run:
  "lms_set_frequency sim_bus sample_h BLADERF_MODULE_RX 1000000000 ideal_sim
     = (Inr (), \<lparr>regs = (\<lambda>_. 0)(0x25 := 0x95, 0x20 := 0x34, 0x21 := 0x15, 0x22 := 0x55,
                             0x23 := 0x55, 0x26 := 0x0c, 0x27 := 0, 0x28 := 0, 0x29 := 32,
                             0x09 := 0),
                    script = (\<lambda>_. []), fault = None\<rparr>)"
  unfolding lms_set_frequency_def clamp_1g calc_1g Let_def
  by (simp add: set_frequency_defs sample_h_def ideal_sim_def sim_eval andthen_def)

section \<open>DC calibration ends\<close>


















text \<open>
  A run of the whole calibration of the RX LPF on a device that never converges.  The
  initialisation of the module sets RXVGA1 to its maximum, 30 dB, and the minimum is 5 dB:
  the calibration makes 26 attempts, one at each gain from 30 down to 5 (26 of the 27
  scripted pairs of readings are consumed), and then returns \<open>BLADERF_ERR_UNEXPECTED\<close>.
\<close>

theorem rx_lpf_retries_down_to_minimum:
  "fst (lms_calibrate_dc sim_bus sample_h BLADERF_DC_CAL_RX_LPF stubborn_sim)
     = Inl BLADERF_ERR_UNEXPECTED \<and>
   script (snd (lms_calibrate_dc sim_bus sample_h BLADERF_DC_CAL_RX_LPF stubborn_sim)) 0x50
     = [31, 0]"
  by (simp add: dc_cal_defs stubborn_sim_def sample_h_def sim_eval andthen_def
        lms_lna_get_gain_def lms_lna_set_gain_def lms_rxvga1_get_gain_def lms_rxvga1_set_gain_def
        lms_rxvga2_get_gain_def lms_rxvga2_set_gain_def lna_gain_of_value_def
        rxvga1_lut_code2val_def rxvga1_lut_val2code_def c_div_def)
section \<open>VCO-capacitor tuning\<close>

text \<open>
  \<open>tune_vcocap\<close> computes on bytes (\<open>vcocap\<close>, \<open>step\<close>) and on \<open>int\<close> (\<open>start_i\<close>, \<open>stop_i\<close>).
  The lemmas below show that this arithmetic never wraps around: the codes of phase A stay
  between 1 and 63, and the function of the source does what the three phases of the
  specification do on natural numbers.
\<close>

lemma drop_bit_u8_of_nat:
  assumes "s < 256"
  shows "drop_bit 1 (of_nat s :: u8) = of_nat (s div 2)"
proof -
  have "unat (drop_bit 1 (of_nat s :: u8)) = unat (of_nat (s div 2) :: u8)"
    using assms by (simp add: drop_bit_eq_div unat_div unsigned_of_nat take_bit_nat_eq_self)
  then show ?thesis by (simp only: word_unat_eq_iff)
qed

lemma uint_u8_of_nat:
  assumes "c < 256"
  shows "uint (of_nat c :: u8) = int c"
  using assms by (simp add: uint_nat unsigned_of_nat take_bit_nat_eq_self)

lemma andthen_assoc: "andthen (andthen m f) g = andthen m (\<lambda>v. andthen (f v) g)"
  by (rule ext) (simp add: andthen_def split: prod.splits sum.splits)

lemma andthen_ret: "andthen (ret v) f = f v"
  by (rule ext) (simp add: andthen_def ret_def)

lemma phase_a_refines:
  assumes "2 * s \<le> c" and "c + 2 * s \<le> 64" and "i + n = 6" and "0 < n \<or> vt \<noteq> VCO_NORM"
  shows "andthen (tune_vcocap_search b base data i (of_nat c) (of_nat s) vt)
           (\<lambda>(vcocap, vtune). if vtune \<noteq> VCO_NORM then fail BLADERF_ERR_UNEXPECTED
                                else K vcocap vtune) d
         = andthen (spec_phase_a b base data n c s) (\<lambda>code. K (of_nat code) VCO_NORM) d"
  using assms
proof (induction n arbitrary: i c s vt d)
  case 0
  then show ?case
    by (subst tune_vcocap_search.simps) (simp add: andthen_def ret_def fail_def)
next
  case (Suc n)
  have i: "i < 6" using Suc.prems(3) by simp
  have s: "drop_bit 1 (of_nat s :: u8) = of_nat (s div 2)"
    using Suc.prems(2) by (intro drop_bit_u8_of_nat) simp
  have sub: "(of_nat c :: u8) - of_nat s = of_nat (c - s)"
    using Suc.prems(1) by simp
  obtain rw d1 where w: "LMS_WRITE b (base + 9) (of_nat c OR data) d = (rw, d1)"
    by (cases "LMS_WRITE b (base + 9) (of_nat c OR data) d")
  obtain rr d2 where r: "LMS_READ b (base + 10) d1 = (rr, d2)"
    by (cases "LMS_READ b (base + 10) d1")
  show ?case
  proof (cases rw)
    case (Inl e)
    with w i show ?thesis
      by (subst tune_vcocap_search.simps) (simp add: andthen_def vco_probe_def)
  next
    case wok: (Inr u)
    show ?thesis
    proof (cases rr)
      case (Inl e)
      with w wok r i show ?thesis
        by (subst tune_vcocap_search.simps) (simp add: andthen_def vco_probe_def)
    next
      case (Inr v)
      consider (norm) "drop_bit 6 v = VCO_NORM"
        | (high) "drop_bit 6 v \<noteq> VCO_NORM" "drop_bit 6 v = VCO_HIGH"
        | (low) "drop_bit 6 v \<noteq> VCO_NORM" "drop_bit 6 v \<noteq> VCO_HIGH" "drop_bit 6 v = VCO_LOW"
        | (bad) "drop_bit 6 v \<noteq> VCO_NORM" "drop_bit 6 v \<noteq> VCO_HIGH" "drop_bit 6 v \<noteq> VCO_LOW"
        by blast
      then show ?thesis
      proof cases
        case norm
        with w wok r Inr i show ?thesis
          by (subst tune_vcocap_search.simps)
            (simp add: andthen_def vco_probe_def ret_def Let_def)
      next
        case high
        have "andthen (tune_vcocap_search b base data (i + 1) (of_nat (c + s)) (of_nat (s div 2))
                 (drop_bit 6 v))
                (\<lambda>(vcocap, vtune). if vtune \<noteq> VCO_NORM then fail BLADERF_ERR_UNEXPECTED
                                     else K vcocap vtune) d2
              = andthen (spec_phase_a b base data n (c + s) (s div 2))
                  (\<lambda>code. K (of_nat code) VCO_NORM) d2"
          using Suc.prems high by (intro Suc.IH) auto
        with w wok r Inr i high s show ?thesis
          by (subst tune_vcocap_search.simps)
            (simp add: andthen_def vco_probe_def ret_def Let_def)
      next
        case low
        have "andthen (tune_vcocap_search b base data (i + 1) (of_nat (c - s)) (of_nat (s div 2))
                 (drop_bit 6 v))
                (\<lambda>(vcocap, vtune). if vtune \<noteq> VCO_NORM then fail BLADERF_ERR_UNEXPECTED
                                     else K vcocap vtune) d2
              = andthen (spec_phase_a b base data n (c - s) (s div 2))
                  (\<lambda>code. K (of_nat code) VCO_NORM) d2"
          using Suc.prems low by (intro Suc.IH) auto
        with w wok r Inr i low s sub show ?thesis
          by (subst tune_vcocap_search.simps)
            (simp add: andthen_def vco_probe_def ret_def Let_def)
      next
        case bad
        with w wok r Inr i show ?thesis
          by (subst tune_vcocap_search.simps)
            (simp add: andthen_def vco_probe_def ret_def fail_def Let_def)
      qed
    qed
  qed
qed

lemma scan_down_refines:
  "andthen (tune_vcocap_scan_down b base data (int c) vt) (\<lambda>(start_i, vtune). K start_i vtune) d
   = andthen (spec_scan_down b base data c vt) (\<lambda>(lo, status). K (int lo) status) d"
proof (induction c arbitrary: vt d)
  case 0
  show ?case
    by (simp only: andthen_def, subst tune_vcocap_scan_down.simps, subst spec_scan_down.simps)
      (simp add: andthen_def ret_def)
next
  case (Suc c)
  obtain rw d1 where w: "LMS_WRITE b (base + 9) (of_nat c OR data) d = (rw, d1)"
    by (cases "LMS_WRITE b (base + 9) (of_nat c OR data) d")
  obtain rr d2 where r: "LMS_READ b (base + 10) d1 = (rr, d2)"
    by (cases "LMS_READ b (base + 10) d1")
  show ?case
  proof (cases "vt = VCO_HIGH")
    case True
    then show ?thesis
      by (simp only: andthen_def, subst tune_vcocap_scan_down.simps, subst spec_scan_down.simps)
        (simp add: andthen_def ret_def)
  next
    case False
    show ?thesis
    proof (cases rw)
      case (Inl e)
      with w False show ?thesis
        by (simp only: andthen_def, subst tune_vcocap_scan_down.simps, subst spec_scan_down.simps)
          (simp add: andthen_def vco_probe_def)
    next
      case wok: (Inr u)
      show ?thesis
      proof (cases rr)
        case (Inl e)
        with w wok r False show ?thesis
          by (simp only: andthen_def, subst tune_vcocap_scan_down.simps, subst spec_scan_down.simps)
            (simp add: andthen_def vco_probe_def)
      next
        case (Inr v)
        with w wok r False Suc.IH [of "drop_bit 6 v" d2] show ?thesis
          by (simp only: andthen_def, subst tune_vcocap_scan_down.simps, subst spec_scan_down.simps)
            (simp add: andthen_def vco_probe_def ret_def)
      qed
    qed
  qed
qed

lemma scan_up_refines:
  "andthen (tune_vcocap_scan_up b base data (int c) vt) (\<lambda>(stop_i, vtune). K stop_i vtune) d
   = andthen (spec_scan_up b base data c vt) (\<lambda>(hi, status). K (int hi) status) d"
proof (induction "64 - c" arbitrary: c vt d)
  case 0
  then show ?case
    by (simp only: andthen_def, subst tune_vcocap_scan_up.simps, subst spec_scan_up.simps)
      (simp add: andthen_def ret_def)
next
  case (Suc k)
  have c: "c < 64" and k: "k = 64 - (c + 1)"
    using Suc.hyps(2) by simp_all
  have e: "(word_of_int (int c + 1) :: u8) = of_nat (c + 1)"
    by simp
  obtain rw d1 where w: "LMS_WRITE b (base + 9) (of_nat (c + 1) OR data) d = (rw, d1)"
    by (cases "LMS_WRITE b (base + 9) (of_nat (c + 1) OR data) d")
  obtain rr d2 where r: "LMS_READ b (base + 10) d1 = (rr, d2)"
    by (cases "LMS_READ b (base + 10) d1")
  show ?case
  proof (cases "vt = VCO_LOW")
    case True
    then show ?thesis
      by (simp only: andthen_def, subst tune_vcocap_scan_up.simps, subst spec_scan_up.simps)
        (simp add: andthen_def ret_def)
  next
    case False
    show ?thesis
    proof (cases rw)
      case (Inl e)
      with w False c show ?thesis
        by (simp only: andthen_def, subst tune_vcocap_scan_up.simps, subst spec_scan_up.simps)
          (simp add: andthen_def vco_probe_def add.commute)
    next
      case wok: (Inr u)
      show ?thesis
      proof (cases rr)
        case (Inl e)
        with w wok r False c show ?thesis
          by (simp only: andthen_def, subst tune_vcocap_scan_up.simps, subst spec_scan_up.simps)
            (simp add: andthen_def vco_probe_def add.commute)
      next
        case (Inr v)
        have "andthen (tune_vcocap_scan_up b base data (int (c + 1)) (drop_bit 6 v))
                (\<lambda>(stop_i, vtune). K stop_i vtune) d2
              = andthen (spec_scan_up b base data (c + 1) (drop_bit 6 v))
                  (\<lambda>(hi, status). K (int hi) status) d2"
          using k by (rule Suc.hyps(1))
        with w wok r Inr False c show ?thesis
          by (simp only: andthen_def, subst tune_vcocap_scan_up.simps, subst spec_scan_up.simps)
            (simp add: andthen_def vco_probe_def ret_def add.commute)
      qed
    qed
  qed
qed

lemma phase_a_range:
  assumes "spec_phase_a b base data n c s d = (Inr code, d')"
    and "2 * s \<le> c" and "c + 2 * s \<le> 64" and "1 \<le> c" and "c \<le> 63"
  shows "1 \<le> code \<and> code \<le> 63"
  using assms
proof (induction n arbitrary: c s d)
  case 0
  then show ?case by simp
next
  case (Suc n)
  from Suc.prems(1) obtain status d1 where
    p: "vco_probe b base data c d = (Inr status, d1)"
    and rest: "(if status = VCO_NORM then ret c d1
       else if status = VCO_HIGH then spec_phase_a b base data n (c + s) (s div 2) d1
       else if status = VCO_LOW then spec_phase_a b base data n (c - s) (s div 2) d1
       else fail BLADERF_ERR_UNEXPECTED d1) = (Inr code, d')"
    by (auto simp add: andthen_def split: prod.splits sum.splits)
  consider (norm) "code = c"
    | (high) "spec_phase_a b base data n (c + s) (s div 2) d1 = (Inr code, d')"
    | (low) "spec_phase_a b base data n (c - s) (s div 2) d1 = (Inr code, d')"
    using rest by (auto simp add: ret_def fail_def split: if_splits)
  then show ?case
  proof cases
    case norm
    with Suc.prems show ?thesis by simp
  next
    case high
    from Suc.prems(2-5) show ?thesis
      by (intro Suc.IH [OF high]) linarith+
  next
    case low
    from Suc.prems(2-5) show ?thesis
      by (intro Suc.IH [OF low]) linarith+
  qed
qed

lemma scan_up_lower:
  assumes "spec_scan_up b base data c vt d = (Inr (hi, v), d')"
  shows "c \<le> hi"
  using assms
proof (induction "64 - c" arbitrary: c vt d)
  case 0
  then show ?case
    by (subst (asm) spec_scan_up.simps) (simp add: ret_def)
next
  case (Suc k)
  have k: "k = 64 - (c + 1)"
    using Suc.hyps(2) by simp
  from Suc.prems consider (stop) "hi = c"
    | (step) status d1 where "spec_scan_up b base data (c + 1) status d1 = (Inr (hi, v), d')"
    by (subst (asm) spec_scan_up.simps)
      (auto simp add: andthen_def ret_def split: if_splits prod.splits sum.splits)
  then show ?case
  proof cases
    case stop
    then show ?thesis by simp
  next
    case step
    from Suc.hyps(1) [OF k step] show ?thesis by simp
  qed
qed

lemma phase_a_start:
  "andthen (tune_vcocap_search b base data 0 32 (drop_bit 1 32) VCO_NORM)
     (\<lambda>(vcocap, vtune). if vtune \<noteq> VCO_NORM then fail BLADERF_ERR_UNEXPECTED
                          else K vcocap vtune)
   = andthen (spec_phase_a b base data 6 32 16) (\<lambda>code. K (of_nat code) VCO_NORM)"
proof
  fix d
  show "andthen (tune_vcocap_search b base data 0 32 (drop_bit 1 32) VCO_NORM)
          (\<lambda>(vcocap, vtune). if vtune \<noteq> VCO_NORM then fail BLADERF_ERR_UNEXPECTED
                               else K vcocap vtune) d
        = andthen (spec_phase_a b base data 6 32 16) (\<lambda>code. K (of_nat code) VCO_NORM) d"
    using phase_a_refines [of 16 32 0 6 VCO_NORM b base data K d] by simp
qed

lemma scan_down_start:
  "andthen (tune_vcocap_scan_down b base data (int c) vt) (\<lambda>(start_i, vtune). K start_i vtune)
   = andthen (spec_scan_down b base data c vt) (\<lambda>(lo, status). K (int lo) status)"
  by (rule ext) (rule scan_down_refines)

lemma scan_up_start:
  "andthen (tune_vcocap_scan_up b base data (int c) vt) (\<lambda>(stop_i, vtune). K stop_i vtune)
   = andthen (spec_scan_up b base data c vt) (\<lambda>(hi, status). K (int hi) status)"
  by (rule ext) (rule scan_up_refines)

lemma vcocap_midpoint:
  assumes "1 \<le> hi"
  shows "(word_of_int (drop_bit 1 (int lo + 1 + (int hi - 1))) :: u8)
           = of_nat ((lo + 1 + (hi - 1)) div 2)"
proof -
  have n: "lo + 1 + (hi - 1) = lo + hi"
    using assms by simp
  have "drop_bit 1 (int lo + 1 + (int hi - 1)) = drop_bit 1 (int (lo + hi))"
    by simp
  also have "\<dots> = int (drop_bit 1 (lo + hi))"
    by (simp only: of_nat_drop_bit)
  also have "\<dots> = int ((lo + hi) div 2)"
    by (simp add: drop_bit_eq_div)
  finally show ?thesis
    unfolding n by simp
qed

lemma if_neq_flip: "(if a \<noteq> b then x else y) = (if a = b then y else x)"
  by simp

lemma scan_down_upper:
  assumes "spec_scan_down b base data c vt d = (Inr (lo, v), d')"
  shows "lo \<le> c"
  using assms
proof (induction c arbitrary: vt d)
  case 0
  then show ?case
    by (subst (asm) spec_scan_down.simps) (simp add: ret_def)
next
  case (Suc c)
  from Suc.prems consider (stop) "lo = Suc c"
    | (step) status d1 where "spec_scan_down b base data c status d1 = (Inr (lo, v), d')"
    by (subst (asm) spec_scan_down.simps)
      (auto simp add: andthen_def ret_def split: if_splits prod.splits sum.splits)
  then show ?case
  proof cases
    case stop
    then show ?thesis by simp
  next
    case step
    from Suc.IH [OF step] show ?thesis by simp
  qed
qed

lemma scan_up_upper:
  assumes "spec_scan_up b base data c vt d = (Inr (hi, v), d')" and "c \<le> 64"
  shows "hi \<le> 64"
  using assms
proof (induction "64 - c" arbitrary: c vt d)
  case 0
  then show ?case
    by (subst (asm) spec_scan_up.simps) (simp add: ret_def)
next
  case (Suc k)
  have k: "k = 64 - (c + 1)" and c: "c + 1 \<le> 64"
    using Suc.hyps(2) by simp_all
  from Suc.prems(1) consider (stop) "hi = c"
    | (step) status d1 where "spec_scan_up b base data (c + 1) status d1 = (Inr (hi, v), d')"
    by (subst (asm) spec_scan_up.simps)
      (auto simp add: andthen_def ret_def split: if_splits prod.splits sum.splits)
  then show ?case
  proof cases
    case stop
    with Suc.prems(2) show ?thesis by simp
  next
    case step
    from Suc.hyps(1) [OF k step c] show ?thesis .
  qed
qed

lemma tune_vcocap_ranges:
  assumes "spec_phase_a b base data 6 32 16 d = (Inr code, d1)"
    and "spec_scan_down b base data code VCO_NORM d1 = (Inr (lo, v), d2)"
    and "spec_scan_up b base data code status d3 = (Inr (hi, v'), d4)"
  shows "1 \<le> code \<and> code \<le> 63 \<and> lo \<le> code \<and> code \<le> hi \<and> hi \<le> 64 \<and>
         (lo + 1 + (hi - 1)) div 2 \<le> 63"
proof -
  from phase_a_range [OF assms(1)] have c: "1 \<le> code" "code \<le> 63"
    by simp_all
  have lo: "lo \<le> code"
    using assms(2) by (rule scan_down_upper)
  have hi: "code \<le> hi" "hi \<le> 64"
    using assms(3) c(2) by (auto intro: scan_up_lower scan_up_upper)
  from c lo hi show ?thesis
    by simp
qed

lemma tune_vcocap_spec:
  "tune_vcocap b base data_arg d = spec_tune_vcocap b base d"
  unfolding tune_vcocap_def spec_tune_vcocap_def Let_def phase_a_start
proof (rule andthen_cong [OF refl], goal_cases)
  case (1 data0 d0)
  show ?case
  proof (rule andthen_cong [OF refl], goal_cases)
    case (1 code d1)
    from phase_a_range [OF 1] have range: "1 \<le> code" "code \<le> 63"
      by simp_all
    have u: "uint (of_nat code :: u8) = int code"
      using range by (intro uint_u8_of_nat) simp
    show ?case
      unfolding u scan_down_start scan_up_start vco_probe_def andthen_assoc andthen_ret
      using range(1)
      apply -
      apply (rule andthen_cong [OF refl])
      apply clarify
      apply (rule andthen_cong [OF refl])
      apply (rule andthen_cong [OF refl])
      apply (rule andthen_cong [OF refl])
      apply clarify
      apply (frule scan_up_lower)
      apply (subst vcocap_midpoint)
       apply linarith
      apply (simp only: if_neq_flip)
      done
  qed
qed

lemma numeral_6_Suc: "6 = Suc (Suc (Suc (Suc (Suc (Suc 0)))))"
  by simp

lemmas spec_vco_eval = vco_probe_def spec_scan_down.simps spec_scan_up.simps
  VCO_NORM_def VCO_HIGH_def VCO_LOW_def sim_eval andthen_def

text \<open>
  Claim C4.  On every device, \<open>tune_vcocap\<close> is the VCO-capacitor tuning of the
  specification: phase A starts at the trim code 32 with the step 16 and makes at most 6
  iterations, each of which reads the status, stops on \<open>VCO_NORM\<close>, adds the step on
  \<open>VCO_HIGH\<close>, subtracts it on \<open>VCO_LOW\<close>, fails with \<open>BLADERF_ERR_UNEXPECTED\<close> on any other
  status, and halves the step; it fails with \<open>BLADERF_ERR_UNEXPECTED\<close> when the status is not
  \<open>VCO_NORM\<close> after 6 iterations.  Phase C programs the integer midpoint
  \<open>(start + stop) div 2\<close> of the two edges that phase B has found and fails with
  \<open>BLADERF_ERR_UNEXPECTED\<close> when the status read back there is not \<open>VCO_NORM\<close>.  Moreover the
  code that phase A ends with is between 1 and 63, the scans of phase B end between 0 and
  that code and between that code and 64, and the midpoint is at most 63: it fits the 6
  bits of the trim code.
\<close>

theorem tune_vcocap_refines:
  "tune_vcocap b base data_arg d = spec_tune_vcocap b base d \<and>
   (spec_phase_a b base data 6 32 16 d0 = (Inr code, d1) \<and>
    spec_scan_down b base data code VCO_NORM d1 = (Inr (lo, v), d2) \<and>
    spec_scan_up b base data code status d3 = (Inr (hi, v'), d4) \<longrightarrow>
      1 \<le> code \<and> code \<le> 63 \<and> lo \<le> code \<and> code \<le> hi \<and> hi \<le> 64 \<and>
      (lo + 1 + (hi - 1)) div 2 \<le> 63)"
proof (rule conjI [OF tune_vcocap_spec], rule impI)
  assume "spec_phase_a b base data 6 32 16 d0 = (Inr code, d1) \<and>
    spec_scan_down b base data code VCO_NORM d1 = (Inr (lo, v), d2) \<and>
    spec_scan_up b base data code status d3 = (Inr (hi, v'), d4)"
  then show "1 \<le> code \<and> code \<le> 63 \<and> lo \<le> code \<and> code \<le> hi \<and> hi \<le> 64 \<and>
      (lo + 1 + (hi - 1)) div 2 \<le> 63"
    by (elim conjE) (rule tune_vcocap_ranges)
qed

theorem tune_vcocap_refines_witness:
  "tune_vcocap sim_bus 0x10 0 vco_sim = spec_tune_vcocap sim_bus 0x10 vco_sim \<and>
   tune_vcocap sim_bus 0x10 0 vco_sim =
     (Inr (), \<lparr> regs = (\<lambda>_. 0)(0x19 := 0xe7), script = (\<lambda>_. [])(0x1a := []),
                fault = None \<rparr>) \<and>
   (let d1 = snd (spec_phase_a sim_bus 0x10 0xc0 6 32 16 vco_sim);
        d2 = snd (spec_scan_down sim_bus 0x10 0xc0 40 VCO_NORM d1);
        d3 = snd (vco_probe sim_bus 0x10 0xc0 40 d2)
    in fst (spec_phase_a sim_bus 0x10 0xc0 6 32 16 vco_sim) = Inr 40 \<and>
       fst (spec_scan_down sim_bus 0x10 0xc0 40 VCO_NORM d1) = Inr (37, VCO_HIGH) \<and>
       fst (vco_probe sim_bus 0x10 0xc0 40 d2) = Inr VCO_NORM \<and>
       fst (spec_scan_up sim_bus 0x10 0xc0 40 VCO_NORM d3) = Inr (42, VCO_LOW)) \<and>
   (37 + 1 + (42 - 1)) div 2 = (39 :: nat) \<and>
   tune_vcocap sim_bus 0x10 0 high_sim =
     (Inl BLADERF_ERR_UNEXPECTED, high_sim\<lparr>regs := (\<lambda>_. 0)(0x1a := 0x80, 0x19 := 63)\<rparr>) \<and>
   tune_vcocap sim_bus 0x10 0 invalid_sim =
     (Inl BLADERF_ERR_UNEXPECTED, invalid_sim\<lparr>regs := (\<lambda>_. 0)(0x1a := 0xc0, 0x19 := 32)\<rparr>)"
proof -
  define d1 where "d1 = snd (spec_phase_a sim_bus 0x10 0xc0 6 32 16 vco_sim)"
  define d2 where "d2 = snd (spec_scan_down sim_bus 0x10 0xc0 40 VCO_NORM d1)"
  define d3 where "d3 = snd (vco_probe sim_bus 0x10 0xc0 40 d2)"
  define d4 where "d4 = snd (spec_scan_up sim_bus 0x10 0xc0 40 VCO_NORM d3)"
  note t = tune_vcocap_refines [where b = sim_bus and base = "0x10"]
  have a: "spec_tune_vcocap sim_bus 0x10 vco_sim =
        (Inr (), \<lparr> regs = (\<lambda>_. 0)(0x19 := 0xe7), script = (\<lambda>_. [])(0x1a := []),
                   fault = None \<rparr>)"
    unfolding spec_tune_vcocap_def numeral_6_Suc
    by (simp add: vco_sim_def spec_vco_eval)
  have b: "spec_tune_vcocap sim_bus 0x10 high_sim =
        (Inl BLADERF_ERR_UNEXPECTED, high_sim\<lparr>regs := (\<lambda>_. 0)(0x1a := 0x80, 0x19 := 63)\<rparr>)"
    unfolding spec_tune_vcocap_def numeral_6_Suc
    by (simp add: high_sim_def spec_vco_eval)
  have c: "spec_tune_vcocap sim_bus 0x10 invalid_sim =
        (Inl BLADERF_ERR_UNEXPECTED, invalid_sim\<lparr>regs := (\<lambda>_. 0)(0x1a := 0xc0, 0x19 := 32)\<rparr>)"
    unfolding spec_tune_vcocap_def numeral_6_Suc
    by (simp add: invalid_sim_def spec_vco_eval)
  have pa': "fst (spec_phase_a sim_bus 0x10 0xc0 6 32 16 vco_sim) = Inr 40"
    unfolding numeral_6_Suc by (simp add: vco_sim_def spec_vco_eval)
  have sd': "fst (spec_scan_down sim_bus 0x10 0xc0 40 VCO_NORM d1) = Inr (37, VCO_HIGH)"
    unfolding d1_def numeral_6_Suc by (simp add: vco_sim_def spec_vco_eval)
  have pr: "fst (vco_probe sim_bus 0x10 0xc0 40 d2) = Inr VCO_NORM"
    unfolding d2_def d1_def numeral_6_Suc by (simp add: vco_sim_def spec_vco_eval)
  have su': "fst (spec_scan_up sim_bus 0x10 0xc0 40 VCO_NORM d3) = Inr (42, VCO_LOW)"
    unfolding d3_def d2_def d1_def numeral_6_Suc by (simp add: vco_sim_def spec_vco_eval)
  have pa: "spec_phase_a sim_bus 0x10 0xc0 6 32 16 vco_sim = (Inr 40, d1)"
    unfolding d1_def by (rule prod_eqI) (simp_all add: pa')
  have sd: "spec_scan_down sim_bus 0x10 0xc0 40 VCO_NORM d1 = (Inr (37, VCO_HIGH), d2)"
    unfolding d2_def by (rule prod_eqI) (simp_all add: sd')
  have su: "spec_scan_up sim_bus 0x10 0xc0 40 VCO_NORM d3 = (Inr (42, VCO_LOW), d4)"
    unfolding d4_def by (rule prod_eqI) (simp_all add: su')
  have r: "(37 + 1 + (42 - 1)) div 2 \<le> (63 :: nat)"
    using t [where data = "0xc0" and ?d0.0 = vco_sim and code = 40 and ?d1.0 = d1 and lo = 37
        and v = VCO_HIGH and ?d2.0 = d2 and status = VCO_NORM and ?d3.0 = d3 and hi = 42
        and v' = VCO_LOW and ?d4.0 = d4] pa sd su
    by simp
  have t1: "tune_vcocap sim_bus 0x10 0 vco_sim = spec_tune_vcocap sim_bus 0x10 vco_sim"
    using t [where d = vco_sim and data_arg = 0] by simp
  have t2: "tune_vcocap sim_bus 0x10 0 high_sim = spec_tune_vcocap sim_bus 0x10 high_sim"
    using t [where d = high_sim and data_arg = 0] by simp
  have t3: "tune_vcocap sim_bus 0x10 0 invalid_sim = spec_tune_vcocap sim_bus 0x10 invalid_sim"
    using t [where d = invalid_sim and data_arg = 0] by simp
  show ?thesis
    unfolding Let_def
    using t1 a b c pa' sd' pr su' r t2 t3
    unfolding d1_def d2_def d3_def
    by simp
qed

end
